theory Spec2Isabelle
  imports Main
begin

section \<open>JavaScript values and strings\<close>

text \<open>
  The widget exists in three successive implementations. The first (lines 1-263 of
  \<^verbatim>\<open>src/src/LiveCodeRunner.js\<close>) runs the engine in the page and races it against a
  timer; the second (lines 263-644 of the same file) starts one worker per run; the
  third (\<^verbatim>\<open>src/unnamed/part_000\<close>) keeps one worker and a map of pending executions.
  Definitions carry the suffixes \<open>_v1\<close>, \<open>_v2\<close>, \<open>_v3\<close> where the three versions
  use the same name.

  Strings are lists of bytes, a text in UTF-8: every character the program tests
  for (\<open><\<close>, \<open>/\<close>, \<open>>\<close>, \<open>&\<close>, the letters, the words \<open>timeout\<close> and \<open>timed out\<close>) is
  ASCII, and no byte of a longer UTF-8 sequence is; the white space that \<open>trim\<close>
  removes is matched by its encoding. The values that cross the
  engine and worker boundaries are plain data: \<open>undefined\<close>, \<open>null\<close>, booleans,
  natural numbers, strings and plain objects (a list of fields).
\<close>

datatype js_value =
    JUndefined
  | JNull
  | JBool bool
  | JNum nat
  | JStr string
  | JObj "(string \<times> js_value) list"

text \<open>Truthiness, as \<open>!x\<close>, \<open>x || y\<close> and \<open>x ? a : b\<close> read it.\<close>

fun truthy :: "js_value \<Rightarrow> bool" where
  "truthy JUndefined = False"
| "truthy JNull = False"
| "truthy (JBool b) = b"
| "truthy (JNum n) = (n \<noteq> 0)"
| "truthy (JStr s) = (s \<noteq> [])"
| "truthy (JObj fs) = True"

definition js_or :: "js_value \<Rightarrow> js_value \<Rightarrow> js_value" where
  "js_or a b = (if truthy a then a else b)"

text \<open>Property read \<open>o.name\<close>: \<open>undefined\<close> when the field is absent.\<close>

fun get_field :: "js_value \<Rightarrow> string \<Rightarrow> js_value" where
  "get_field (JObj fs) name = (case map_of fs name of Some v \<Rightarrow> v | None \<Rightarrow> JUndefined)"
| "get_field v name = JUndefined"

definition digit_char :: "nat \<Rightarrow> char" where
  "digit_char d = ''0123456789'' ! d"

fun string_of_nat :: "nat \<Rightarrow> string" where
  "string_of_nat n =
     (if n < 10 then [digit_char n] else string_of_nat (n div 10) @ [digit_char (n mod 10)])"

declare string_of_nat.simps [simp del]

text \<open>\<open>String(x)\<close>, and the conversion \<open>"..." + x\<close> applies; a plain object prints as
  \<open>[object Object]\<close>.\<close>

fun to_String :: "js_value \<Rightarrow> string" where
  "to_String JUndefined = ''undefined''"
| "to_String JNull = ''null''"
| "to_String (JBool b) = (if b then ''true'' else ''false'')"
| "to_String (JNum n) = string_of_nat n"
| "to_String (JStr s) = s"
| "to_String (JObj fs) = ''[object Object]''"

text \<open>
  \<open>s.trim()\<close> removes the white space and line terminators of the language at both
  ends: U+0009 to U+000D, U+0020, U+00A0, U+1680, U+2000 to U+200A, U+2028, U+2029,
  U+202F, U+205F, U+3000 and U+FEFF, here by their UTF-8 encodings. \<open>match_length ws s\<close>
  is the number of bytes of the first of \<open>ws\<close> that \<open>s\<close> starts with, or 0;
  \<open>skip_all ws s\<close> removes such prefixes as long as there is one.
\<close>

definition js_white_space :: "string list" where
  "js_white_space =
     [[CHR 0x09], [CHR 0x0A], [CHR 0x0B], [CHR 0x0C], [CHR 0x0D], [CHR 0x20],
      [CHR 0xC2, CHR 0xA0],
      [CHR 0xE1, CHR 0x9A, CHR 0x80],
      [CHR 0xE2, CHR 0x80, CHR 0x80], [CHR 0xE2, CHR 0x80, CHR 0x81],
      [CHR 0xE2, CHR 0x80, CHR 0x82], [CHR 0xE2, CHR 0x80, CHR 0x83],
      [CHR 0xE2, CHR 0x80, CHR 0x84], [CHR 0xE2, CHR 0x80, CHR 0x85],
      [CHR 0xE2, CHR 0x80, CHR 0x86], [CHR 0xE2, CHR 0x80, CHR 0x87],
      [CHR 0xE2, CHR 0x80, CHR 0x88], [CHR 0xE2, CHR 0x80, CHR 0x89],
      [CHR 0xE2, CHR 0x80, CHR 0x8A],
      [CHR 0xE2, CHR 0x80, CHR 0xA8], [CHR 0xE2, CHR 0x80, CHR 0xA9],
      [CHR 0xE2, CHR 0x80, CHR 0xAF],
      [CHR 0xE2, CHR 0x81, CHR 0x9F],
      [CHR 0xE3, CHR 0x80, CHR 0x80],
      [CHR 0xEF, CHR 0xBB, CHR 0xBF]]"

fun match_length :: "string list \<Rightarrow> string \<Rightarrow> nat" where
  "match_length [] s = 0"
| "match_length (w # ws) s =
     (if w \<noteq> [] \<and> take (length w) s = w then length w else match_length ws s)"

fun skip_all :: "string list \<Rightarrow> string \<Rightarrow> string" where
  "skip_all ws [] = []"
| "skip_all ws (c # cs) =
     (if match_length ws (c # cs) = 0 then c # cs
      else skip_all ws (drop (match_length ws (c # cs) - 1) cs))"

definition trim :: "string \<Rightarrow> string" where
  "trim s = rev (skip_all (map rev js_white_space) (rev (skip_all js_white_space s)))"

text \<open>\<open>s.toLowerCase()\<close> on the letters A-Z; \<open>s.includes(p)\<close> is \<open>str_includes s p\<close>.\<close>

definition lower_char :: "char \<Rightarrow> char" where
  "lower_char c =
     (case map_of (zip ''ABCDEFGHIJKLMNOPQRSTUVWXYZ'' ''abcdefghijklmnopqrstuvwxyz'') c of
        Some l \<Rightarrow> l | None \<Rightarrow> c)"

definition toLowerCase :: "string \<Rightarrow> string" where
  "toLowerCase s = map lower_char s"

fun str_includes :: "string \<Rightarrow> string \<Rightarrow> bool" where
  "str_includes [] p = (p = [])"
| "str_includes (c # cs) p = (take (length p) (c # cs) = p \<or> str_includes cs p)"

section \<open>Output classification and escaping\<close>

text \<open>
  All three versions classify with the same regular expression,
  \<^verbatim>\<open>/<\/?[a-z][\s\S]*>/i\<close>: a \<open><\<close>, an optional \<open>/\<close>, a letter of either case, any
  code units, and a \<open>>\<close>. \<open>tag_at\<close> is the expression matched at the start of the
  text, \<open>tag_regex_test\<close> is \<open>RegExp.test\<close>, which tries every start position.
\<close>

definition is_letter :: "char \<Rightarrow> bool" where
  "is_letter c = (c \<in> set ''abcdefghijklmnopqrstuvwxyzABCDEFGHIJKLMNOPQRSTUVWXYZ'')"

fun tag_at :: "string \<Rightarrow> bool" where
  "tag_at (a # b # c # rest) =
     (a = CHR ''<'' \<and>
      ((b = CHR ''/'' \<and> is_letter c \<and> CHR ''>'' \<in> set rest) \<or>
       (is_letter b \<and> CHR ''>'' \<in> set (c # rest))))"
| "tag_at s = False"

fun tag_regex_test :: "string \<Rightarrow> bool" where
  "tag_regex_test [] = False"
| "tag_regex_test (c # cs) = (tag_at (c # cs) \<or> tag_regex_test cs)"

text \<open>\<open>looksLikeHTML\<close> of the first version; its argument is the output string.\<close>

definition looksLikeHTML :: "string \<Rightarrow> bool" where
  "looksLikeHTML text = (if text = [] then False else tag_regex_test text)"

text \<open>
  The tag pattern in the words of the specification: a \<open><\<close> followed by a letter,
  then arbitrary content, then a \<open>>\<close>.
\<close>

fun spec_tag_at :: "string \<Rightarrow> bool" where
  "spec_tag_at (a # b # rest) = (a = CHR ''<'' \<and> is_letter b \<and> CHR ''>'' \<in> set rest)"
| "spec_tag_at s = False"

fun spec_contains_tag :: "string \<Rightarrow> bool" where
  "spec_contains_tag [] = False"
| "spec_contains_tag (c # cs) = (spec_tag_at (c # cs) \<or> spec_contains_tag cs)"

text \<open>
  \<open>escapeHtml\<close>: three global replacements, one after the other.
  \<open>replace_all c r\<close> is \<open>.replace(/c/g, r)\<close> for a one-character pattern.
\<close>

definition replace_all :: "char \<Rightarrow> string \<Rightarrow> string \<Rightarrow> string" where
  "replace_all c r s = concat (map (\<lambda>x. if x = c then r else [x]) s)"

definition escapeHtml :: "string \<Rightarrow> string" where
  "escapeHtml s =
     replace_all (CHR ''>'') ''&gt;''
       (replace_all (CHR ''<'') ''&lt;''
         (replace_all (CHR ''&'') ''&amp;'' s))"

text \<open>One character escaped once: what the specification asks of each occurrence.\<close>

definition escape_char :: "char \<Rightarrow> string" where
  "escape_char c =
     (if c = CHR ''&'' then ''&amp;''
      else if c = CHR ''<'' then ''&lt;''
      else if c = CHR ''>'' then ''&gt;''
      else [c])"

section \<open>The first implementation: the engine in the page\<close>

text \<open>
  The component's properties: the initial source \<open>code\<close> and, in the second and third
  versions, the timeout \<open>timeoutMs\<close>.
\<close>

record props =
  p_code :: string
  p_timeoutMs :: nat

text \<open>
  The engine is an object of the external library; the program looks at six of its
  properties. A property is missing, present but not a function, or a function.
\<close>

datatype member = Missing | NotCallable | Callable

record engine =
  e_run :: member
  e_execute :: member
  e_exec :: member
  e_runString :: member
  e_kill :: member
  e_terminate :: member

text \<open>What the engine answers to one call: a value, or an \<open>Error\<close> with its message.\<close>

datatype engine_outcome = Returned js_value | Threw string

text \<open>Calls made on the engine, in order; \<open>EngineCall k m c\<close> is invocation \<open>k\<close> of
  \<open>runCode\<close> calling method \<open>m\<close> with the source \<open>c\<close>.\<close>

datatype effect = EngineCall nat string string | EngineKill | EngineTerminate

text \<open>
  Where one invocation of \<open>runCode\<close> stands: waiting for \<open>loadRuntime\<close>, waiting for
  \<open>Promise.race\<close> (the flag says whether the engine's value goes through the
  normalisation of lines 101-113, which the \<open>runString\<close> fallback skips), or returned.
\<close>

datatype phase_v1 = AwaitLoad | Racing bool | Finished

record state_v1 =
  src_v1 :: string
  output_v1 :: string
  isLoadingRuntime_v1 :: bool
  isRunning_v1 :: bool
  php_v1 :: "engine option"
  error_v1 :: "string option"
  timedOut_v1 :: bool
  abortRef_v1 :: bool
  calls_v1 :: nat
  phase_v1 :: "nat \<rightharpoonup> phase_v1"
  effects_v1 :: "effect list"

definition initial_v1 :: "props \<Rightarrow> state_v1" where
  "initial_v1 p =
     \<lparr> src_v1 = p_code p, output_v1 = [], isLoadingRuntime_v1 = False, isRunning_v1 = False,
       php_v1 = None, error_v1 = None, timedOut_v1 = False, abortRef_v1 = False,
       calls_v1 = 0, phase_v1 = Map.empty, effects_v1 = [] \<rparr>"

text \<open>Lines 101-113: the engine's value made a string.\<close>

definition normalize_result_v1 :: "js_value \<Rightarrow> string" where
  "normalize_result_v1 result =
     (if result = JUndefined \<or> result = JNull then []
      else case result of
        JStr s \<Rightarrow> s
      | JObj fs \<Rightarrow>
          (let out = get_field result ''stdout''; err = get_field result ''stderr'' in
           if truthy out \<or> truthy err
           then trim (to_String (js_or out (JStr [])) @
                      (if truthy err then [CHR 0x0A] @ to_String err else []))
           else to_String result)
      | _ \<Rightarrow> to_String result)"

text \<open>Lines 128-148: what follows \<open>await Promise.race\<close>, on a value and on an error.\<close>

definition stopped_by_user :: string where
  "stopped_by_user = ''[Execution stopped by user]''"

definition em_dash :: string where
  "em_dash = [CHR 0xE2, CHR 0x80, CHR 0x94]"

definition on_race_value_v1 :: "js_value \<Rightarrow> state_v1 \<Rightarrow> state_v1" where
  "on_race_value_v1 res s =
     (if abortRef_v1 s then s\<lparr>output_v1 := stopped_by_user\<rparr>
      else s\<lparr>output_v1 := (if res = JUndefined \<or> res = JNull then [] else to_String res)\<rparr>)
     \<lparr>isRunning_v1 := False\<rparr>"

definition on_race_error_v1 :: "string \<Rightarrow> state_v1 \<Rightarrow> state_v1" where
  "on_race_error_v1 m s =
     (if str_includes (toLowerCase m) ''timed out''
      then s\<lparr>timedOut_v1 := True, output_v1 := ''[Execution timed out]''\<rparr>
      else if abortRef_v1 s then s\<lparr>output_v1 := stopped_by_user\<rparr>
      else s\<lparr>error_v1 := Some (if m \<noteq> [] then m else ''Error''),
             output_v1 := ''[Execution error '' @ em_dash @ '' see console]''\<rparr>)
     \<lparr>isRunning_v1 := False\<rparr>"

text \<open>Line 91: \<open>php.run || php.execute || php.exec\<close>, with the name of the one chosen.\<close>

definition runner_v1 :: "engine \<Rightarrow> string \<times> member" where
  "runner_v1 e =
     (if e_run e \<noteq> Missing then (''run'', e_run e)
      else if e_execute e \<noteq> Missing then (''execute'', e_execute e)
      else (''exec'', e_exec e))"

text \<open>
  \<open>runCode\<close>, lines 68-126, up to its first wait. The closure reads \<open>php\<close>,
  \<open>isLoadingRuntime\<close> and \<open>src\<close> as they were at the render that made it, which is the
  state it is called in. With no engine it calls \<open>loadRuntime\<close> (lines 27-52), which
  returns at once when a load is under way; the test of line 79 reads the same
  captured \<open>php\<close> again. With an engine it starts the call and the timer.
\<close>

definition runCode_v1 :: "state_v1 \<Rightarrow> state_v1" where
  "runCode_v1 s =
     (let k = Suc (calls_v1 s);
          s1 = s\<lparr>error_v1 := None, timedOut_v1 := False, abortRef_v1 := False,
                 output_v1 := [], isRunning_v1 := True, calls_v1 := k\<rparr>
      in case php_v1 s of
        None \<Rightarrow>
          (if isLoadingRuntime_v1 s
           then s1\<lparr>isRunning_v1 := False, phase_v1 := (phase_v1 s1)(k \<mapsto> Finished)\<rparr>
           else s1\<lparr>isLoadingRuntime_v1 := True, error_v1 := None,
                   phase_v1 := (phase_v1 s1)(k \<mapsto> AwaitLoad)\<rparr>)
      | Some e \<Rightarrow>
          (if snd (runner_v1 e) = Callable
           then s1\<lparr>effects_v1 := effects_v1 s1 @ [EngineCall k (fst (runner_v1 e)) (src_v1 s)],
                   phase_v1 := (phase_v1 s1)(k \<mapsto> Racing True)\<rparr>
           else if e_runString e = Callable
           then s1\<lparr>effects_v1 := effects_v1 s1 @ [EngineCall k ''runString'' (src_v1 s)],
                   phase_v1 := (phase_v1 s1)(k \<mapsto> Racing False)\<rparr>
           else on_race_error_v1 ''php-wasm runtime does not expose a run() function.''
                  (s1\<lparr>phase_v1 := (phase_v1 s1)(k \<mapsto> Finished)\<rparr>)))"

text \<open>
  \<open>loadRuntime\<close> comes back to invocation \<open>k\<close> in one of three ways. The import gave
  a factory and the factory an engine: \<open>setPhp\<close> stores it. The factory resolved to
  \<open>undefined\<close>, \<open>null\<close> or another falsy value: \<open>setPhp\<close> stores that, so there is no
  engine, and no error is set. The import failed, the module had no factory, or the
  factory threw: the \<open>catch\<close> sets the error. The two waits of \<open>loadRuntime\<close> change no
  state between them and are one step here. Then lines 79-82 of \<open>runCode\<close> run.
\<close>

datatype load_outcome = Loaded engine | LoadedNothing | LoadFailed

definition load_failed_message :: string where
  "load_failed_message =
     ''Failed to load php-wasm runtime. Make sure `php-wasm` is installed (npm i php-wasm).''"

definition load_settled_v1 :: "nat \<Rightarrow> load_outcome \<Rightarrow> state_v1 \<Rightarrow> state_v1" where
  "load_settled_v1 k loaded s =
     (if phase_v1 s k = Some AwaitLoad
      then (case loaded of
              Loaded e \<Rightarrow> s\<lparr>php_v1 := Some e\<rparr>
            | LoadedNothing \<Rightarrow> s\<lparr>php_v1 := None\<rparr>
            | LoadFailed \<Rightarrow> s\<lparr>error_v1 := Some load_failed_message\<rparr>)
           \<lparr>isLoadingRuntime_v1 := False, isRunning_v1 := False,
            phase_v1 := (phase_v1 s)(k \<mapsto> Finished)\<rparr>
      else s)"

text \<open>
  The engine settles the call of invocation \<open>k\<close>, or the timer of invocation \<open>k\<close>
  fires. \<open>Promise.race\<close> takes the first of the two; the other finds the invocation
  returned and changes nothing.
\<close>

definition engine_settled_v1 :: "nat \<Rightarrow> engine_outcome \<Rightarrow> state_v1 \<Rightarrow> state_v1" where
  "engine_settled_v1 k oc s =
     (case phase_v1 s k of
        Some (Racing normalized) \<Rightarrow>
          (let s1 = s\<lparr>phase_v1 := (phase_v1 s)(k \<mapsto> Finished)\<rparr> in
           case oc of
             Returned r \<Rightarrow>
               on_race_value_v1 (if normalized then JStr (normalize_result_v1 r) else r) s1
           | Threw m \<Rightarrow> on_race_error_v1 m s1)
      | _ \<Rightarrow> s)"

definition timeout_message_v1 :: "nat \<Rightarrow> string" where
  "timeout_message_v1 ms =
     ''Execution timed out after '' @ string_of_nat (if ms = 0 then 6000 else ms) @ '' ms''"

definition timer_fired_v1 :: "nat \<Rightarrow> nat \<Rightarrow> state_v1 \<Rightarrow> state_v1" where
  "timer_fired_v1 ms k s =
     (case phase_v1 s k of
        Some (Racing normalized) \<Rightarrow>
          on_race_error_v1 (timeout_message_v1 ms) (s\<lparr>phase_v1 := (phase_v1 s)(k \<mapsto> Finished)\<rparr>)
      | _ \<Rightarrow> s)"

text \<open>\<open>stopExecution\<close>, lines 151-164; the Reset and Clear buttons, lines 216-236.\<close>

definition stopping_notice :: string where
  "stopping_notice =
     ''[Stopping execution '' @ em_dash @ '' result may still arrive if runtime cannot be aborted]''"

definition stopExecution_v1 :: "state_v1 \<Rightarrow> state_v1" where
  "stopExecution_v1 s =
     s\<lparr>abortRef_v1 := True, isRunning_v1 := False, output_v1 := stopping_notice,
       effects_v1 := effects_v1 s @
         (case php_v1 s of
            None \<Rightarrow> []
          | Some e \<Rightarrow> (if e_kill e = Callable then [EngineKill] else []) @
                      (if e_terminate e = Callable then [EngineTerminate] else []))\<rparr>"

definition reset_v1 :: "props \<Rightarrow> state_v1 \<Rightarrow> state_v1" where
  "reset_v1 p s = s\<lparr>src_v1 := p_code p, output_v1 := [], error_v1 := None\<rparr>"

definition clear_v1 :: "state_v1 \<Rightarrow> state_v1" where
  "clear_v1 s = s\<lparr>output_v1 := [], error_v1 := None, timedOut_v1 := False\<rparr>"

text \<open>
  \<open>renderOutput\<close>, lines 167-192: nothing, a \<open>div\<close> whose child is the error, a
  sandboxed frame with the output as its document, or a \<open>pre\<close> element whose child is
  the string \<open>escapeHtml(output)\<close>. The children of the \<open>div\<close> and of the \<open>pre\<close> are
  string children of a JSX element.
\<close>

datatype rendered = RenderNothing | RenderError string | RenderFrame string | RenderPre string

definition renderOutput :: "state_v1 \<Rightarrow> rendered" where
  "renderOutput s =
     (let err = (case error_v1 s of None \<Rightarrow> [] | Some m \<Rightarrow> m) in
      if output_v1 s = [] \<and> err = [] then RenderNothing
      else if err \<noteq> [] then RenderError err
      else if looksLikeHTML (output_v1 s) then RenderFrame (output_v1 s)
      else RenderPre (escapeHtml (output_v1 s)))"

text \<open>
  What the page holds for a string child. React makes it a text node: the reader
  sees the characters of the string as they are (\<open>shown_text\<close>), and the markup of
  the page, its \<open>innerHTML\<close>, has the characters \<open>&\<close>, \<open><\<close>, \<open>>\<close> of a text node written
  as \<open>&amp;\<close>, \<open>&lt;\<close>, \<open>&gt;\<close> and a no-break space (U+00A0, the bytes C2 A0) as
  \<open>&nbsp;\<close> (\<open>text_node_markup\<close>). Only a string given as \<open>dangerouslySetInnerHTML\<close>, as
  line 203 does for the source, is taken as markup.
\<close>

fun text_node_markup :: "string \<Rightarrow> string" where
  "text_node_markup [] = []"
| "text_node_markup (c # cs) =
     (if c = CHR 0xC2 \<and> take 1 cs = [CHR 0xA0] then ''&nbsp;'' @ text_node_markup (drop 1 cs)
      else escape_char c @ text_node_markup cs)"

fun shown_text :: "rendered \<Rightarrow> string option" where
  "shown_text (RenderPre t) = Some t"
| "shown_text (RenderError t) = Some t"
| "shown_text r = None"

fun shown_markup :: "rendered \<Rightarrow> string option" where
  "shown_markup (RenderPre t) = Some (text_node_markup t)"
| "shown_markup (RenderError t) = Some (text_node_markup t)"
| "shown_markup r = None"

text \<open>
  The status of the second and third versions. The first version has no such
  variable; what it shows is the label of the Run button (line 213: loading, then
  running), the timeout notice (lines 256-260) and the error (lines 169-171).
\<close>

datatype status = Idle | Loading | Running | Stopped | Timeout | Error


text \<open>
  The events of the first version. The Run button passes \<open>timeoutMs: 8000\<close> and is
  disabled while loading or running; the Stop button is disabled unless running.
\<close>

datatype event_v1 =
    ClickRun1
  | ClickStop1
  | ClickReset1
  | ClickClear1
  | Edit1 string
  | LoadSettled1 nat load_outcome
  | EngineSettled1 nat engine_outcome
  | TimerFired1 nat

fun step_v1 :: "props \<Rightarrow> state_v1 \<Rightarrow> event_v1 \<Rightarrow> state_v1" where
  "step_v1 p s ClickRun1 = (if isLoadingRuntime_v1 s \<or> isRunning_v1 s then s else runCode_v1 s)"
| "step_v1 p s ClickStop1 = (if isRunning_v1 s then stopExecution_v1 s else s)"
| "step_v1 p s ClickReset1 = reset_v1 p s"
| "step_v1 p s ClickClear1 = clear_v1 s"
| "step_v1 p s (Edit1 t) = s\<lparr>src_v1 := t\<rparr>"
| "step_v1 p s (LoadSettled1 k loaded) = load_settled_v1 k loaded s"
| "step_v1 p s (EngineSettled1 k oc) = engine_settled_v1 k oc s"
| "step_v1 p s (TimerFired1 k) = timer_fired_v1 8000 k s"

definition run_v1 :: "props \<Rightarrow> state_v1 \<Rightarrow> event_v1 list \<Rightarrow> state_v1" where
  "run_v1 p s evs = foldl (step_v1 p) s evs"

section \<open>Messages from a worker\<close>

text \<open>
  The data of a message event, read through the properties the two worker-based
  versions look at; a property that is absent reads \<open>undefined\<close>.
\<close>

record message =
  m_type :: js_value
  m_id :: js_value
  m_runId :: js_value
  m_output :: js_value
  m_result :: js_value
  m_stdout :: js_value
  m_stderr :: js_value
  m_error :: js_value
  m_message :: js_value
  m_ready :: js_value

definition empty_message :: message where
  "empty_message =
     \<lparr> m_type = JUndefined, m_id = JUndefined, m_runId = JUndefined, m_output = JUndefined,
       m_result = JUndefined, m_stdout = JUndefined, m_stderr = JUndefined,
       m_error = JUndefined, m_message = JUndefined, m_ready = JUndefined \<rparr>"

text \<open>
  A loader that tries its candidate sources in order and keeps the first that gives
  an engine (\<open>createRuntime\<close> of the second version's worker, \<open>loadPHPWithFallback\<close>
  of the third's). \<open>fetch\<close> says what each source gives; \<open>None\<close> is the error thrown
  when every source has failed.
\<close>

fun load_with_fallback :: "(string \<Rightarrow> 'e option) \<Rightarrow> string list \<Rightarrow> 'e option" where
  "load_with_fallback fetch [] = None"
| "load_with_fallback fetch (u # us) =
     (case fetch u of Some e \<Rightarrow> Some e | None \<Rightarrow> load_with_fallback fetch us)"

section \<open>The second implementation: one worker per run\<close>

text \<open>
  The worker's script (lines 286-345). On a \<open>run\<close> message it loads the engine from
  \<open>tries\<close>, runs the code and posts one reply with the request's identifier.
  Reading \<open>result.stdout\<close> of \<open>undefined\<close> or \<open>null\<close> throws a \<open>TypeError\<close>, whose
  message is the browser's (\<open>type_error\<close>).
\<close>

fun join_or :: "string list \<Rightarrow> string" where
  "join_or [] = []"
| "join_or [u] = u"
| "join_or (u # us) = u @ '' or '' @ join_or us"

definition error_reply :: "nat \<Rightarrow> js_value \<Rightarrow> message" where
  "error_reply i m = empty_message\<lparr>m_type := JStr ''error'', m_id := JNum i, m_error := m\<rparr>"

definition worker_reply_v2 ::
  "string \<Rightarrow> (string \<Rightarrow> 'e option) \<Rightarrow> string list \<Rightarrow> nat \<Rightarrow> engine_outcome \<Rightarrow> message" where
  "worker_reply_v2 type_error fetch tries i oc =
     (case load_with_fallback fetch tries of
        None \<Rightarrow> error_reply i (JStr (''Could not load php-wasm runtime from '' @ join_or tries))
      | Some e \<Rightarrow>
          (case oc of
             Threw m \<Rightarrow> error_reply i (JStr m)
           | Returned r \<Rightarrow>
               if r = JUndefined \<or> r = JNull then error_reply i (JStr type_error)
               else empty_message\<lparr>m_type := JStr ''result'', m_id := JNum i,
                      m_result := JStr
                        (if truthy (get_field r ''stdout'') \<or> truthy (get_field r ''stderr'')
                         then to_String (js_or (get_field r ''stdout'') (JStr [])) @
                              (if truthy (get_field r ''stderr'')
                               then [CHR 0x0A] @ to_String (get_field r ''stderr'') else [])
                         else to_String r)\<rparr>))"

text \<open>
  The page's side. Each call of \<open>runWithWorker\<close> (lines 367-435) makes a worker, an
  identifier, a \<open>finished\<close> flag, a promise and a timer; the worker and the run share
  the identifier here. \<open>r_settled\<close> is the promise, \<open>r_timer\<close> says the timer has yet
  to fire, \<open>r_terminated\<close> that \<open>terminate()\<close> was called on the worker.
\<close>

record run_v2 =
  r_finished :: bool
  r_settled :: bool
  r_timer :: bool
  r_terminated :: bool

record state_v2 =
  src_v2 :: string
  output_v2 :: string
  isHtmlOutput_v2 :: bool
  status_v2 :: status
  lastError_v2 :: js_value
  workerRef_v2 :: "nat option"
  runIdRef_v2 :: nat
  blobUrl_v2 :: bool
  runs_v2 :: "nat \<rightharpoonup> run_v2"
  posted_v2 :: "(nat \<times> string) list"

definition initial_v2 :: "props \<Rightarrow> state_v2" where
  "initial_v2 p =
     \<lparr> src_v2 = p_code p, output_v2 = [], isHtmlOutput_v2 = False, status_v2 = Idle,
       lastError_v2 = JNull, workerRef_v2 = None, runIdRef_v2 = 0, blobUrl_v2 = False,
       runs_v2 = Map.empty, posted_v2 = [] \<rparr>"

text \<open>\<open>runCode\<close>, lines 438-466: after the wait, the \<open>try\<close> body and the \<open>catch\<close>. The
  error caught is an \<open>Error\<close> with the message \<open>m\<close>.\<close>

definition runCode_ok_v2 :: "string \<Rightarrow> state_v2 \<Rightarrow> state_v2" where
  "runCode_ok_v2 result s =
     s\<lparr>isHtmlOutput_v2 := tag_regex_test result, output_v2 := result, status_v2 := Idle\<rparr>"

definition runCode_catch_v2 :: "string \<Rightarrow> state_v2 \<Rightarrow> state_v2" where
  "runCode_catch_v2 m s =
     s\<lparr>status_v2 := (if m \<noteq> [] \<and> str_includes (toLowerCase m) ''timeout'' then Timeout else Error),
       lastError_v2 := JStr (if m \<noteq> [] then m else ''Error''),
       output_v2 := ''[Error] '' @ (if m \<noteq> [] then m else ''Error'')\<rparr>"

text \<open>The promise of run \<open>k\<close>: the first \<open>resolve\<close> or \<open>reject\<close> settles it and lets
  \<open>runCode\<close> go on; a later one does nothing.\<close>

definition resolve_v2 :: "nat \<Rightarrow> string \<Rightarrow> state_v2 \<Rightarrow> state_v2" where
  "resolve_v2 k result s =
     (case runs_v2 s k of
        None \<Rightarrow> s
      | Some r \<Rightarrow>
          if r_settled r then s
          else runCode_ok_v2 result (s\<lparr>runs_v2 := (runs_v2 s)(k \<mapsto> r\<lparr>r_settled := True\<rparr>)\<rparr>))"

definition reject_v2 :: "nat \<Rightarrow> string \<Rightarrow> state_v2 \<Rightarrow> state_v2" where
  "reject_v2 k m s =
     (case runs_v2 s k of
        None \<Rightarrow> s
      | Some r \<Rightarrow>
          if r_settled r then s
          else runCode_catch_v2 m (s\<lparr>runs_v2 := (runs_v2 s)(k \<mapsto> r\<lparr>r_settled := True\<rparr>)\<rparr>))"

text \<open>\<open>finished = true\<close> followed by \<open>cleanup()\<close> (lines 378-383), as every settling
  branch of run \<open>k\<close> does.\<close>

definition finish_v2 :: "nat \<Rightarrow> state_v2 \<Rightarrow> state_v2" where
  "finish_v2 k s =
     (case runs_v2 s k of
        None \<Rightarrow> s
      | Some r \<Rightarrow>
          s\<lparr>runs_v2 := (runs_v2 s)(k \<mapsto> r\<lparr>r_finished := True, r_terminated := True\<rparr>),
            workerRef_v2 := (if workerRef_v2 s = Some k then None else workerRef_v2 s)\<rparr>)"

text \<open>
  \<open>runCode\<close> up to its wait, with the body of \<open>runWithWorker\<close>. The two status
  updates of lines 442 and 444 run in the same turn. Posting the request (a string, a
  number) cannot fail, so the \<open>catch\<close> of lines 429-433 is not reached.
\<close>

definition runCode_v2 :: "state_v2 \<Rightarrow> state_v2" where
  "runCode_v2 s =
     (let s1 = s\<lparr>lastError_v2 := JNull, isHtmlOutput_v2 := False, output_v2 := [],
                 status_v2 := Loading\<rparr>;
          s2 = s1\<lparr>status_v2 := Running\<rparr>
      in if \<not> blobUrl_v2 s2 then runCode_catch_v2 ''Worker blob not initialized'' s2
         else let k = Suc (runIdRef_v2 s2) in
           s2\<lparr>workerRef_v2 := Some k, runIdRef_v2 := k,
              runs_v2 := (runs_v2 s2)(k \<mapsto>
                \<lparr>r_finished = False, r_settled = False, r_timer = True, r_terminated = False\<rparr>),
              posted_v2 := posted_v2 s2 @ [(k, src_v2 s)]\<rparr>)"

text \<open>\<open>worker.onmessage\<close> of run \<open>k\<close>, lines 385-409, and \<open>worker.onerror\<close>, lines
  411-415 (\<open>m\<close> is the event's \<open>message\<close>).\<close>

definition onmessage_v2 :: "nat \<Rightarrow> message \<Rightarrow> state_v2 \<Rightarrow> state_v2" where
  "onmessage_v2 k msg s =
     (if truthy (m_id msg) \<and> m_id msg \<noteq> JNum k \<and> m_type msg \<noteq> JStr ''debug'' then s
      else if m_type msg = JStr ''debug'' then s
      else if m_type msg = JStr ''result''
        then resolve_v2 k (to_String (js_or (m_result msg) (JStr []))) (finish_v2 k s)
      else if m_type msg = JStr ''error''
        then reject_v2 k (to_String (js_or (m_error msg) (JStr ''Unknown error from worker'')))
               (finish_v2 k s)
      else if m_type msg = JStr ''stopped''
        then reject_v2 k ''Execution stopped'' (finish_v2 k s)
      else s)"

definition onerror_v2 :: "nat \<Rightarrow> js_value \<Rightarrow> state_v2 \<Rightarrow> state_v2" where
  "onerror_v2 k m s =
     reject_v2 k (to_String (js_or m (JStr ''Worker runtime error''))) (finish_v2 k s)"

text \<open>The timer of run \<open>k\<close>, lines 417-425.\<close>

definition timeout_message_v2 :: "nat \<Rightarrow> string" where
  "timeout_message_v2 ms = ''Client-side timeout after '' @ string_of_nat ms @ '' ms''"

definition timer_v2 :: "props \<Rightarrow> nat \<Rightarrow> state_v2 \<Rightarrow> state_v2" where
  "timer_v2 p k s =
     (case runs_v2 s k of
        None \<Rightarrow> s
      | Some r \<Rightarrow>
          if r_finished r then s
          else reject_v2 k (timeout_message_v2 (p_timeoutMs p)) (finish_v2 k s))"

text \<open>\<open>stopExecution\<close>, lines 469-478; \<open>resetCode\<close>, lines 480-485; the Clear button.\<close>

definition stopExecution_v2 :: "state_v2 \<Rightarrow> state_v2" where
  "stopExecution_v2 s =
     (case workerRef_v2 s of
        None \<Rightarrow> s
      | Some k \<Rightarrow>
          s\<lparr>runs_v2 := (case runs_v2 s k of
                           None \<Rightarrow> runs_v2 s
                         | Some r \<Rightarrow> (runs_v2 s)(k \<mapsto> r\<lparr>r_terminated := True\<rparr>)),
            workerRef_v2 := None, status_v2 := Stopped, output_v2 := ''[Execution stopped]''\<rparr>)"

definition resetCode_v2 :: "props \<Rightarrow> state_v2 \<Rightarrow> state_v2" where
  "resetCode_v2 p s =
     s\<lparr>src_v2 := p_code p, output_v2 := [], status_v2 := Idle, lastError_v2 := JNull\<rparr>"

definition clear_v2 :: "state_v2 \<Rightarrow> state_v2" where
  "clear_v2 s = s\<lparr>output_v2 := [], lastError_v2 := JNull\<rparr>"

text \<open>
  The events of the second version. The Run button is disabled while the status is
  \<open>running\<close> or \<open>loading\<close>, the Stop button while no worker is remembered. A worker
  that was terminated delivers no further message or error; a timer fires once.
\<close>

datatype event_v2 =
    Mount2
  | ClickRun2
  | ClickStop2
  | ClickReset2
  | ClickClear2
  | Edit2 string
  | WorkerMessage2 nat message
  | WorkerError2 nat js_value
  | TimerFired2 nat

definition delivers_v2 :: "state_v2 \<Rightarrow> nat \<Rightarrow> bool" where
  "delivers_v2 s k = (case runs_v2 s k of None \<Rightarrow> False | Some r \<Rightarrow> \<not> r_terminated r)"

definition timer_armed_v2 :: "state_v2 \<Rightarrow> nat \<Rightarrow> bool" where
  "timer_armed_v2 s k = (case runs_v2 s k of None \<Rightarrow> False | Some r \<Rightarrow> r_timer r)"

definition disarm_v2 :: "nat \<Rightarrow> state_v2 \<Rightarrow> state_v2" where
  "disarm_v2 k s =
     (case runs_v2 s k of
        None \<Rightarrow> s
      | Some r \<Rightarrow> s\<lparr>runs_v2 := (runs_v2 s)(k \<mapsto> r\<lparr>r_timer := False\<rparr>)\<rparr>)"

fun step_v2 :: "props \<Rightarrow> state_v2 \<Rightarrow> event_v2 \<Rightarrow> state_v2" where
  "step_v2 p s Mount2 = s\<lparr>blobUrl_v2 := True\<rparr>"
| "step_v2 p s ClickRun2 =
     (if status_v2 s = Running \<or> status_v2 s = Loading then s else runCode_v2 s)"
| "step_v2 p s ClickStop2 = stopExecution_v2 s"
| "step_v2 p s ClickReset2 = resetCode_v2 p s"
| "step_v2 p s ClickClear2 = clear_v2 s"
| "step_v2 p s (Edit2 t) = s\<lparr>src_v2 := t\<rparr>"
| "step_v2 p s (WorkerMessage2 k msg) = (if delivers_v2 s k then onmessage_v2 k msg s else s)"
| "step_v2 p s (WorkerError2 k m) = (if delivers_v2 s k then onerror_v2 k m s else s)"
| "step_v2 p s (TimerFired2 k) = (if timer_armed_v2 s k then timer_v2 p k (disarm_v2 k s) else s)"

definition run_v2 :: "props \<Rightarrow> state_v2 \<Rightarrow> event_v2 list \<Rightarrow> state_v2" where
  "run_v2 p s evs = foldl (step_v2 p) s evs"

definition visible_v2 :: "state_v2 \<Rightarrow> string \<times> bool \<times> status \<times> js_value" where
  "visible_v2 s = (output_v2 s, isHtmlOutput_v2 s, status_v2 s, lastError_v2 s)"

section \<open>The third implementation: one worker, a map of pending executions\<close>

text \<open>
  The worker's script (lines 84-183). A \<open>ping\<close> loads the engine from the three
  sources and answers \<open>ready\<close>, or an error that carries no identifier; a \<open>run\<close>
  answers with the request's identifier.
\<close>

definition CDN_SOURCES :: "string list" where
  "CDN_SOURCES =
     [''https://cdn.jsdelivr.net/npm/php-wasm@latest/dist/php-wasm.js'',
      ''https://unpkg.com/php-wasm@latest/dist/php-wasm.js'',
      ''https://cdn.skypack.dev/php-wasm@latest'']"

definition all_sources_failed :: string where
  "all_sources_failed = ''All PHP-WASM CDN sources failed to load''"

definition ping_reply_v3 :: "(string \<Rightarrow> 'e option) \<Rightarrow> message" where
  "ping_reply_v3 fetch =
     (case load_with_fallback fetch CDN_SOURCES of
        Some e \<Rightarrow> empty_message\<lparr>m_type := JStr ''ready'', m_ready := JBool True\<rparr>
      | None \<Rightarrow> empty_message\<lparr>m_type := JStr ''error'',
                  m_error := JStr (''PHP initialization failed: '' @ all_sources_failed)\<rparr>)"

definition run_reply_v3 :: "nat \<Rightarrow> engine_outcome \<Rightarrow> message" where
  "run_reply_v3 i oc =
     (case oc of
        Returned r \<Rightarrow>
          empty_message\<lparr>m_type := JStr ''result'',
            m_output := JStr (to_String (js_or r (JStr []))), m_id := JNum i\<rparr>
      | Threw m \<Rightarrow>
          empty_message\<lparr>m_type := JStr ''error'',
            m_error := js_or (JStr m) (JStr ''PHP execution failed''), m_id := JNum i\<rparr>)"

text \<open>
  The page's side. \<open>pending_v3\<close> is the keys of the map \<open>pendingExecutions\<close> in
  insertion order; the timer of a run is named by the run's identifier, and
  \<open>timers_v3\<close> holds the timers still to fire. Every call of \<open>initializeWorker\<close> that
  makes a worker leaves a promise, a timer of ten seconds and whoever waits for it:
  the mount effect, or an invocation of \<open>runCode\<close> with the source it captured.
\<close>

datatype waiter = MountWaiter | RunWaiter string

record init_call =
  ic_settled :: bool
  ic_timer :: bool
  ic_waiter :: waiter

record state_v3 =
  src_v3 :: string
  output_v3 :: string
  isHtmlOutput_v3 :: bool
  status_v3 :: status
  lastError_v3 :: js_value
  workerRef_v3 :: "nat option"
  isWorkerReady_v3 :: bool
  runIdRef_v3 :: nat
  pending_v3 :: "nat list"
  timers_v3 :: "nat list"
  workers_v3 :: nat
  inits_v3 :: "nat \<rightharpoonup> init_call"
  terminated_v3 :: "nat list"
  posted_v3 :: "(nat \<times> nat \<times> string) list"

definition initial_v3 :: "props \<Rightarrow> state_v3" where
  "initial_v3 p =
     \<lparr> src_v3 = p_code p, output_v3 = [], isHtmlOutput_v3 = False, status_v3 = Idle,
       lastError_v3 = JNull, workerRef_v3 = None, isWorkerReady_v3 = False, runIdRef_v3 = 0,
       pending_v3 = [], timers_v3 = [], workers_v3 = 0, inits_v3 = Map.empty,
       terminated_v3 = [], posted_v3 = [] \<rparr>"

text \<open>Lines 39-51: the result text of a message. \<open>stringify\<close> is \<open>JSON.stringify\<close>.\<close>

definition normalize_message :: "(message \<Rightarrow> string) \<Rightarrow> message \<Rightarrow> string" where
  "normalize_message stringify msg =
     (if m_output msg \<noteq> JUndefined then to_String (m_output msg)
      else if m_result msg \<noteq> JUndefined then to_String (m_result msg)
      else if m_stdout msg \<noteq> JUndefined
        then to_String (m_stdout msg) @
             (if truthy (m_stderr msg) then [CHR 0x0A] @ to_String (m_stderr msg) else [])
      else stringify msg)"

text \<open>\<open>pendingExecutions.has(runId)\<close>: the keys are numbers, and no other value equals
  one.\<close>

definition pending_key :: "state_v3 \<Rightarrow> js_value \<Rightarrow> nat option" where
  "pending_key s v =
     (case v of JNum n \<Rightarrow> if n \<in> set (pending_v3 s) then Some n else None | _ \<Rightarrow> None)"

text \<open>\<open>handleWorkerMessage\<close>, lines 26-81.\<close>

definition handleWorkerMessage :: "(message \<Rightarrow> string) \<Rightarrow> message \<Rightarrow> state_v3 \<Rightarrow> state_v3" where
  "handleWorkerMessage stringify msg s =
     (let runId = js_or (m_id msg) (m_runId msg) in
      if \<not> truthy runId then s
      else case pending_key s runId of
        None \<Rightarrow> s
      | Some n \<Rightarrow>
          if m_type msg = JStr ''result'' \<or> m_type msg = JStr ''output'' \<or> m_output msg \<noteq> JUndefined
          then let result = normalize_message stringify msg in
            s\<lparr>timers_v3 := removeAll n (timers_v3 s), pending_v3 := removeAll n (pending_v3 s),
              isHtmlOutput_v3 := tag_regex_test result, output_v3 := result, status_v3 := Idle\<rparr>
          else if m_type msg = JStr ''error'' \<or> truthy (m_error msg)
          then let errorMsg = js_or (m_error msg) (js_or (m_message msg) (JStr ''Unknown error'')) in
            s\<lparr>timers_v3 := removeAll n (timers_v3 s), pending_v3 := removeAll n (pending_v3 s),
              status_v3 := Error, lastError_v3 := errorMsg,
              output_v3 := ''[Error] '' @ to_String errorMsg\<rparr>
          else s)"

text \<open>\<open>runCode\<close>, lines 265-305: the \<open>catch\<close> (\<open>m\<close> is the error's \<open>message\<close>), and the
  part after the wait for the worker \<open>w\<close>.\<close>

definition runCode_catch_v3 :: "js_value \<Rightarrow> state_v3 \<Rightarrow> state_v3" where
  "runCode_catch_v3 m s =
     s\<lparr>status_v3 := Error, lastError_v3 := m, output_v3 := ''[Error] '' @ to_String m\<rparr>"

definition runCode_resume_v3 :: "string \<Rightarrow> nat \<Rightarrow> state_v3 \<Rightarrow> state_v3" where
  "runCode_resume_v3 code w s =
     (if \<not> isWorkerReady_v3 s then runCode_catch_v3 (JStr ''Worker not ready'') s
      else let runId = Suc (runIdRef_v3 s) in
        s\<lparr>status_v3 := Running, runIdRef_v3 := runId, timers_v3 := runId # timers_v3 s,
          pending_v3 := pending_v3 s @ [runId], posted_v3 := posted_v3 s @ [(w, runId, code)]\<rparr>)"

text \<open>
  \<open>initializeWorker\<close>, lines 189-239, for the waiter \<open>wt\<close>. The result is the new state
  and, when the promise is resolved on the spot, the worker. Otherwise a worker that
  is not ready is terminated and a new one made and pinged. Making a worker is taken
  to succeed, so the \<open>catch\<close> of lines 234-237 is not reached.
\<close>

definition start_worker_v3 :: "waiter \<Rightarrow> state_v3 \<Rightarrow> state_v3" where
  "start_worker_v3 wt s =
     (let w = Suc (workers_v3 s) in
      s\<lparr>workers_v3 := w, workerRef_v3 := Some w,
        inits_v3 := (inits_v3 s)(w \<mapsto> \<lparr>ic_settled = False, ic_timer = True, ic_waiter = wt\<rparr>)\<rparr>)"

definition initializeWorker :: "waiter \<Rightarrow> state_v3 \<Rightarrow> state_v3 \<times> nat option" where
  "initializeWorker wt s =
     (case workerRef_v3 s of
        Some w \<Rightarrow>
          if isWorkerReady_v3 s then (s, Some w)
          else (start_worker_v3 wt
                  (s\<lparr>terminated_v3 := w # terminated_v3 s, workerRef_v3 := None,
                     isWorkerReady_v3 := False\<rparr>), None)
      | None \<Rightarrow> (start_worker_v3 wt s, None))"

definition runCode_v3 :: "state_v3 \<Rightarrow> state_v3" where
  "runCode_v3 s =
     (let s1 = s\<lparr>lastError_v3 := JNull, isHtmlOutput_v3 := False, output_v3 := [],
                 status_v3 := Loading\<rparr>
      in case initializeWorker (RunWaiter (src_v3 s)) s1 of
           (s2, Some w) \<Rightarrow> runCode_resume_v3 (src_v3 s) w s2
         | (s2, None) \<Rightarrow> s2)"

definition mount_v3 :: "state_v3 \<Rightarrow> state_v3" where
  "mount_v3 s = fst (initializeWorker MountWaiter s)"

text \<open>The promise of the \<open>initializeWorker\<close> call that made worker \<open>w\<close>: the first
  \<open>resolve\<close> or \<open>reject\<close> settles it and wakes its waiter.\<close>

definition init_resolve :: "nat \<Rightarrow> state_v3 \<Rightarrow> state_v3" where
  "init_resolve w s =
     (case inits_v3 s w of
        None \<Rightarrow> s
      | Some ic \<Rightarrow>
          if ic_settled ic then s
          else let s1 = s\<lparr>inits_v3 := (inits_v3 s)(w \<mapsto> ic\<lparr>ic_settled := True\<rparr>)\<rparr> in
            (case ic_waiter ic of
               MountWaiter \<Rightarrow> s1
             | RunWaiter code \<Rightarrow> runCode_resume_v3 code w s1))"

definition init_reject :: "nat \<Rightarrow> js_value \<Rightarrow> state_v3 \<Rightarrow> state_v3" where
  "init_reject w m s =
     (case inits_v3 s w of
        None \<Rightarrow> s
      | Some ic \<Rightarrow>
          if ic_settled ic then s
          else let s1 = s\<lparr>inits_v3 := (inits_v3 s)(w \<mapsto> ic\<lparr>ic_settled := True\<rparr>)\<rparr> in
            (case ic_waiter ic of
               MountWaiter \<Rightarrow> s1
             | RunWaiter code \<Rightarrow> runCode_catch_v3 m s1))"

definition clear_init_timer :: "nat \<Rightarrow> state_v3 \<Rightarrow> state_v3" where
  "clear_init_timer w s =
     (case inits_v3 s w of
        None \<Rightarrow> s
      | Some ic \<Rightarrow> s\<lparr>inits_v3 := (inits_v3 s)(w \<mapsto> ic\<lparr>ic_timer := False\<rparr>)\<rparr>)"

text \<open>The handlers \<open>initializeWorker\<close> puts on worker \<open>w\<close> (lines 212-230) and its
  timer (lines 208-210).\<close>

definition worker_onmessage_v3 ::
  "(message \<Rightarrow> string) \<Rightarrow> nat \<Rightarrow> message \<Rightarrow> state_v3 \<Rightarrow> state_v3" where
  "worker_onmessage_v3 stringify w msg s =
     (if m_type msg = JStr ''ready'' \<or> m_ready msg = JBool True
      then init_resolve w (clear_init_timer w (s\<lparr>isWorkerReady_v3 := True\<rparr>))
      else handleWorkerMessage stringify msg s)"

definition worker_onerror_v3 :: "nat \<Rightarrow> js_value \<Rightarrow> state_v3 \<Rightarrow> state_v3" where
  "worker_onerror_v3 w m s = init_reject w m (clear_init_timer w (s\<lparr>isWorkerReady_v3 := False\<rparr>))"

definition init_timeout_v3 :: "nat \<Rightarrow> state_v3 \<Rightarrow> state_v3" where
  "init_timeout_v3 w s = init_reject w (JStr ''Worker initialization timeout'') (clear_init_timer w s)"

text \<open>The timer of run \<open>n\<close>, lines 282-289.\<close>

definition timeout_message_v3 :: "nat \<Rightarrow> string" where
  "timeout_message_v3 ms = ''Execution timeout after '' @ string_of_nat ms @ '' ms''"

definition timer_v3 :: "props \<Rightarrow> nat \<Rightarrow> state_v3 \<Rightarrow> state_v3" where
  "timer_v3 p n s =
     (if n \<in> set (pending_v3 s)
      then s\<lparr>pending_v3 := removeAll n (pending_v3 s), status_v3 := Timeout,
             lastError_v3 := JStr (timeout_message_v3 (p_timeoutMs p)),
             output_v3 := ''[Error] Execution timeout''\<rparr>
      else s)"

text \<open>\<open>stopExecution\<close>, \<open>resetCode\<close> and \<open>clearOutput\<close>, lines 307-327.\<close>

definition stopExecution_v3 :: "state_v3 \<Rightarrow> state_v3" where
  "stopExecution_v3 s =
     s\<lparr>timers_v3 := filter (\<lambda>t. t \<notin> set (pending_v3 s)) (timers_v3 s), pending_v3 := [],
       status_v3 := Stopped, output_v3 := ''[Execution stopped]''\<rparr>"

definition resetCode_v3 :: "props \<Rightarrow> state_v3 \<Rightarrow> state_v3" where
  "resetCode_v3 p s =
     s\<lparr>src_v3 := p_code p, output_v3 := [], status_v3 := Idle, lastError_v3 := JNull\<rparr>"

definition clearOutput_v3 :: "state_v3 \<Rightarrow> state_v3" where
  "clearOutput_v3 s = s\<lparr>output_v3 := [], lastError_v3 := JNull\<rparr>"

text \<open>
  The events of the third version, while the widget is mounted. The Run button is
  disabled while the status is \<open>running\<close> or \<open>loading\<close>. The Stop button reads its
  \<open>disabled\<close> flag from the size of the pending map as it was when the component
  last rendered (line 398), and the map is a ref whose changes cause no rendering:
  the button can be enabled while nothing is pending, so a click on Stop runs
  \<open>stopExecution\<close> in every state. Only a worker that was made and not terminated
  delivers messages and errors; a timer that was cleared or has fired does not fire.
\<close>

datatype event_v3 =
    Mount3
  | ClickRun3
  | ClickStop3
  | ClickReset3
  | ClickClear3
  | Edit3 string
  | WorkerMessage3 nat message
  | WorkerError3 nat js_value
  | InitTimeout3 nat
  | TimerFired3 nat

definition delivers_v3 :: "state_v3 \<Rightarrow> nat \<Rightarrow> bool" where
  "delivers_v3 s w = (inits_v3 s w \<noteq> None \<and> w \<notin> set (terminated_v3 s))"

definition init_timer_armed :: "state_v3 \<Rightarrow> nat \<Rightarrow> bool" where
  "init_timer_armed s w = (case inits_v3 s w of None \<Rightarrow> False | Some ic \<Rightarrow> ic_timer ic)"

fun step_v3 :: "props \<Rightarrow> (message \<Rightarrow> string) \<Rightarrow> state_v3 \<Rightarrow> event_v3 \<Rightarrow> state_v3" where
  "step_v3 p js s Mount3 = mount_v3 s"
| "step_v3 p js s ClickRun3 =
     (if status_v3 s = Running \<or> status_v3 s = Loading then s else runCode_v3 s)"
| "step_v3 p js s ClickStop3 = stopExecution_v3 s"
| "step_v3 p js s ClickReset3 = resetCode_v3 p s"
| "step_v3 p js s ClickClear3 = clearOutput_v3 s"
| "step_v3 p js s (Edit3 t) = s\<lparr>src_v3 := t\<rparr>"
| "step_v3 p js s (WorkerMessage3 w msg) =
     (if delivers_v3 s w then worker_onmessage_v3 js w msg s else s)"
| "step_v3 p js s (WorkerError3 w m) = (if delivers_v3 s w then worker_onerror_v3 w m s else s)"
| "step_v3 p js s (InitTimeout3 w) = (if init_timer_armed s w then init_timeout_v3 w s else s)"
| "step_v3 p js s (TimerFired3 n) =
     (if n \<in> set (timers_v3 s) then timer_v3 p n (s\<lparr>timers_v3 := removeAll n (timers_v3 s)\<rparr>)
      else s)"

definition run_v3 :: "props \<Rightarrow> (message \<Rightarrow> string) \<Rightarrow> state_v3 \<Rightarrow> event_v3 list \<Rightarrow> state_v3" where
  "run_v3 p js s evs = foldl (step_v3 p js) s evs"

definition visible_v3 :: "state_v3 \<Rightarrow> string \<times> bool \<times> status \<times> js_value" where
  "visible_v3 s = (output_v3 s, isHtmlOutput_v3 s, status_v3 s, lastError_v3 s)"

section \<open>Predicates of the statements\<close>

text \<open>
  The identifier \<open>handleWorkerMessage\<close> reads off a message, and the messages the
  handler of a worker takes as the worker's \<open>ready\<close> notice.
\<close>

definition run_id :: "message \<Rightarrow> js_value" where
  "run_id msg = js_or (m_id msg) (m_runId msg)"

definition is_ready_message :: "message \<Rightarrow> bool" where
  "is_ready_message msg = (m_type msg = JStr ''ready'' \<or> m_ready msg = JBool True)"

text \<open>
  Third version: an identifier is stale when it was issued and is no longer pending.
  In a well-formed state every pending run has its timer and the other way round, and
  the identifiers in use are at most the counter.
\<close>

definition stale_v3 :: "state_v3 \<Rightarrow> nat \<Rightarrow> bool" where
  "stale_v3 s n = (n \<le> runIdRef_v3 s \<and> n \<notin> set (pending_v3 s))"

definition wf_v3 :: "state_v3 \<Rightarrow> bool" where
  "wf_v3 s =
     (set (timers_v3 s) = set (pending_v3 s) \<and>
      list_all (\<lambda>n. n \<le> runIdRef_v3 s) (pending_v3 s))"

text \<open>
  Second version: the promise of run \<open>k\<close> is settled; run \<open>k\<close> is waiting (nothing
  has settled it, its timer has yet to fire); run \<open>k\<close> is done (settled, and issued).
\<close>

definition settled_v2 :: "state_v2 \<Rightarrow> nat \<Rightarrow> bool" where
  "settled_v2 s k = (case runs_v2 s k of None \<Rightarrow> False | Some r \<Rightarrow> r_settled r)"

definition waiting_v2 :: "state_v2 \<Rightarrow> nat \<Rightarrow> bool" where
  "waiting_v2 s k =
     (case runs_v2 s k of
        None \<Rightarrow> False
      | Some r \<Rightarrow> \<not> r_finished r \<and> \<not> r_settled r \<and> r_timer r \<and> k \<le> runIdRef_v2 s)"

definition done_v2 :: "state_v2 \<Rightarrow> nat \<Rightarrow> bool" where
  "done_v2 s k = (settled_v2 s k \<and> k \<le> runIdRef_v2 s)"

text \<open>
  First version: invocation \<open>k\<close> has called the engine; the calls on record come from
  invocations made so far; invocation \<open>k\<close> has not called the engine and is waiting for
  the load or has returned.
\<close>

fun calls_engine :: "effect \<Rightarrow> nat \<Rightarrow> bool" where
  "calls_engine (EngineCall j m c) k = (j = k)"
| "calls_engine e k = False"

definition engine_called_v1 :: "state_v1 \<Rightarrow> nat \<Rightarrow> bool" where
  "engine_called_v1 s k = list_ex (\<lambda>e. calls_engine e k) (effects_v1 s)"

fun call_bound :: "nat \<Rightarrow> effect \<Rightarrow> bool" where
  "call_bound n (EngineCall j m c) = (j \<le> n)"
| "call_bound n e = True"

definition wf_v1 :: "state_v1 \<Rightarrow> bool" where
  "wf_v1 s = list_all (call_bound (calls_v1 s)) (effects_v1 s)"

definition never_called_v1 :: "state_v1 \<Rightarrow> nat \<Rightarrow> bool" where
  "never_called_v1 s k =
     (k \<le> calls_v1 s \<and> \<not> engine_called_v1 s k \<and>
      (phase_v1 s k = Some AwaitLoad \<or> phase_v1 s k = Some Finished))"

text \<open>
  Third version: an invocation of \<open>runCode\<close> waits for the promise of the
  \<open>initializeWorker\<close> call that made worker \<open>w\<close>; two states have the same counter,
  pending runs, timers and posted requests.
\<close>

definition awaited_by_run :: "state_v3 \<Rightarrow> nat \<Rightarrow> bool" where
  "awaited_by_run t w =
     (case inits_v3 t w of
        None \<Rightarrow> False
      | Some ic \<Rightarrow> \<not> ic_settled ic \<and> (case ic_waiter ic of RunWaiter c \<Rightarrow> True | MountWaiter \<Rightarrow> False))"

definition same_runs_v3 :: "state_v3 \<Rightarrow> state_v3 \<Rightarrow> bool" where
  "same_runs_v3 t t' =
     (runIdRef_v3 t' = runIdRef_v3 t \<and> pending_v3 t' = pending_v3 t \<and>
      timers_v3 t' = timers_v3 t \<and> posted_v3 t' = posted_v3 t)"

text \<open>
  First version: invocation \<open>k\<close> waits for \<open>Promise.race\<close>; invocation \<open>k\<close> has
  returned.
\<close>

definition racing_v1 :: "state_v1 \<Rightarrow> nat \<Rightarrow> bool" where
  "racing_v1 s k =
     (k \<le> calls_v1 s \<and> (case phase_v1 s k of Some (Racing b) \<Rightarrow> True | _ \<Rightarrow> False))"

definition finished_v1 :: "state_v1 \<Rightarrow> nat \<Rightarrow> bool" where
  "finished_v1 s k = (phase_v1 s k = Some Finished \<and> k \<le> calls_v1 s)"

text \<open>
  The normalised result in the words of the specification: standard output, then a
  newline and standard error when standard error is not empty.
\<close>

definition spec_normalized :: "string \<Rightarrow> string \<Rightarrow> string" where
  "spec_normalized out err = out @ (if err \<noteq> [] then [CHR 0x0A] @ err else [])"

text \<open>Concrete inputs for the examples: properties, an engine with a \<open>run\<close> method, a
  stand-in for \<open>JSON.stringify\<close>, and the worker's \<open>ready\<close> notice.\<close>

definition example_props :: props where
  "example_props = \<lparr>p_code = ''<?php echo 1;'', p_timeoutMs = 8000\<rparr>"

definition example_engine :: engine where
  "example_engine =
     \<lparr>e_run = Callable, e_execute = Missing, e_exec = Missing, e_runString = Missing,
      e_kill = Missing, e_terminate = Missing\<rparr>"

definition example_json :: "message \<Rightarrow> string" where
  "example_json m = ''{}''"

definition ready_message :: message where
  "ready_message = empty_message\<lparr>m_type := JStr ''ready'', m_ready := JBool True\<rparr>"


section \<open>Lemmas: strings, classification, escaping\<close>

lemma replace_all_Nil: "replace_all c r [] = []"
  by (simp add: replace_all_def)

lemma replace_all_Cons:
  "replace_all c r (x # xs) = (if x = c then r else [x]) @ replace_all c r xs"
  by (simp add: replace_all_def)

lemma replace_all_append:
  "replace_all c r (xs @ ys) = replace_all c r xs @ replace_all c r ys"
  by (simp add: replace_all_def)

lemma escapeHtml_Nil: "escapeHtml [] = []"
  by (simp add: escapeHtml_def replace_all_Nil)

lemma escapeHtml_Cons: "escapeHtml (x # xs) = escape_char x @ escapeHtml xs"
  by (simp add: escapeHtml_def escape_char_def replace_all_Cons replace_all_append replace_all_Nil)

lemma escapeHtml_concat: "escapeHtml s = concat (map escape_char s)"
  by (induction s) (simp_all add: escapeHtml_Nil escapeHtml_Cons)

lemma tag_at_iff:
  "tag_at s \<longleftrightarrow>
     (\<exists>c mid post. is_letter c \<and>
        (s = CHR ''<'' # c # mid @ CHR ''>'' # post \<or>
         s = CHR ''<'' # CHR ''/'' # c # mid @ CHR ''>'' # post))"
proof (cases s rule: tag_at.cases)
  case (1 a b c rest)
  show ?thesis
  proof
    assume "tag_at s"
    with 1 have a: "a = CHR ''<''"
      and d: "(b = CHR ''/'' \<and> is_letter c \<and> CHR ''>'' \<in> set rest) \<or>
              (is_letter b \<and> CHR ''>'' \<in> set (c # rest))"
      by simp_all
    from d show "\<exists>c mid post. is_letter c \<and>
        (s = CHR ''<'' # c # mid @ CHR ''>'' # post \<or>
         s = CHR ''<'' # CHR ''/'' # c # mid @ CHR ''>'' # post)"
    proof
      assume h: "b = CHR ''/'' \<and> is_letter c \<and> CHR ''>'' \<in> set rest"
      then obtain mid post where "rest = mid @ CHR ''>'' # post"
        by (meson split_list)
      with h a 1 show ?thesis by blast
    next
      assume h: "is_letter b \<and> CHR ''>'' \<in> set (c # rest)"
      then obtain mid post where "c # rest = mid @ CHR ''>'' # post"
        by (meson split_list)
      with h a 1 show ?thesis by blast
    qed
  next
    assume "\<exists>c mid post. is_letter c \<and>
        (s = CHR ''<'' # c # mid @ CHR ''>'' # post \<or>
         s = CHR ''<'' # CHR ''/'' # c # mid @ CHR ''>'' # post)"
    then obtain l mid post where l: "is_letter l"
      and s: "s = CHR ''<'' # l # mid @ CHR ''>'' # post \<or>
              s = CHR ''<'' # CHR ''/'' # l # mid @ CHR ''>'' # post"
      by blast
    from s show "tag_at s"
    proof
      assume e: "s = CHR ''<'' # l # mid @ CHR ''>'' # post"
      with 1 have "a = CHR ''<''" "b = l" "c # rest = mid @ CHR ''>'' # post" by simp_all
      then have "CHR ''>'' \<in> set (c # rest)" by (metis in_set_conv_decomp)
      with 1 l \<open>a = CHR ''<''\<close> \<open>b = l\<close> show ?thesis by simp
    next
      assume e: "s = CHR ''<'' # CHR ''/'' # l # mid @ CHR ''>'' # post"
      with 1 have "a = CHR ''<''" "b = CHR ''/''" "c = l" "rest = mid @ CHR ''>'' # post" by simp_all
      with 1 l show ?thesis by simp
    qed
  qed
qed (auto simp: Cons_eq_append_conv)

lemma tag_regex_test_iff: "tag_regex_test s \<longleftrightarrow> (\<exists>pre t. s = pre @ t \<and> tag_at t)"
proof (induction s)
  case Nil
  then show ?case by simp
next
  case (Cons c cs)
  show ?case
  proof
    assume "tag_regex_test (c # cs)"
    then have "tag_at (c # cs) \<or> tag_regex_test cs" by simp
    then show "\<exists>pre t. c # cs = pre @ t \<and> tag_at t"
    proof
      assume "tag_at (c # cs)"
      then have "c # cs = [] @ (c # cs) \<and> tag_at (c # cs)" by simp
      then show ?thesis by blast
    next
      assume "tag_regex_test cs"
      with Cons.IH obtain pre t where "cs = pre @ t" "tag_at t" by blast
      then have "c # cs = (c # pre) @ t \<and> tag_at t" by simp
      then show ?thesis by blast
    qed
  next
    assume "\<exists>pre t. c # cs = pre @ t \<and> tag_at t"
    then obtain pre t where e: "c # cs = pre @ t" and t: "tag_at t" by blast
    show "tag_regex_test (c # cs)"
    proof (cases pre)
      case Nil
      with e have "t = c # cs" by simp
      with t show ?thesis by simp
    next
      case (Cons x pre')
      with e have "cs = pre' @ t" by simp
      with t Cons.IH have "tag_regex_test cs" by blast
      then show ?thesis by simp
    qed
  qed
qed

lemma spec_tag_at_imp: "spec_tag_at s \<Longrightarrow> tag_at s"
  by (cases s rule: tag_at.cases) auto

lemma spec_contains_tag_imp: "spec_contains_tag s \<Longrightarrow> tag_regex_test s"
  by (induction s) (auto dest: spec_tag_at_imp)

lemma looksLikeHTML_eq: "looksLikeHTML s = tag_regex_test s"
  by (cases s) (simp_all add: looksLikeHTML_def)

section \<open>Lemmas: the third implementation\<close>

lemma handleWorkerMessage_not_pending:
  "pending_key s (run_id msg) = None \<Longrightarrow> handleWorkerMessage js msg s = s"
  by (simp add: handleWorkerMessage_def run_id_def Let_def)

lemma handleWorkerMessage_falsy:
  "\<not> truthy (run_id msg) \<Longrightarrow> handleWorkerMessage js msg s = s"
  by (simp add: handleWorkerMessage_def run_id_def Let_def)

lemma pending_key_stale: "stale_v3 s n \<Longrightarrow> pending_key s (JNum n) = None"
  by (simp add: pending_key_def stale_v3_def)

lemma stale_handleWorkerMessage:
  "stale_v3 s n \<Longrightarrow> stale_v3 (handleWorkerMessage js msg s) n"
  by (auto simp: handleWorkerMessage_def stale_v3_def Let_def split: option.splits)

lemma stale_runCode_catch: "stale_v3 s n \<Longrightarrow> stale_v3 (runCode_catch_v3 m s) n"
  by (simp add: runCode_catch_v3_def stale_v3_def)

lemma stale_runCode_resume: "stale_v3 s n \<Longrightarrow> stale_v3 (runCode_resume_v3 c w s) n"
  by (auto simp: runCode_resume_v3_def runCode_catch_v3_def stale_v3_def Let_def)

lemma stale_start_worker: "stale_v3 s n \<Longrightarrow> stale_v3 (start_worker_v3 wt s) n"
  by (simp add: start_worker_v3_def stale_v3_def Let_def)

lemma stale_initializeWorker: "stale_v3 s n \<Longrightarrow> stale_v3 (fst (initializeWorker wt s)) n"
  by (auto simp: initializeWorker_def start_worker_v3_def stale_v3_def Let_def split: option.splits)

lemma stale_runCode: "stale_v3 s n \<Longrightarrow> stale_v3 (runCode_v3 s) n"
proof -
  assume a: "stale_v3 s n"
  let ?s1 = "s\<lparr>lastError_v3 := JNull, isHtmlOutput_v3 := False, output_v3 := [], status_v3 := Loading\<rparr>"
  from a have b: "stale_v3 ?s1 n" by (simp add: stale_v3_def)
  have c: "stale_v3 (fst (initializeWorker (RunWaiter (src_v3 s)) ?s1)) n"
    using b by (rule stale_initializeWorker)
  show ?thesis
    using c by (auto simp: runCode_v3_def Let_def split: prod.splits option.splits intro: stale_runCode_resume)
qed

lemma stale_clear_init_timer: "stale_v3 s n \<Longrightarrow> stale_v3 (clear_init_timer w s) n"
  by (auto simp: clear_init_timer_def stale_v3_def split: option.splits)

lemma stale_init_resolve: "stale_v3 s n \<Longrightarrow> stale_v3 (init_resolve w s) n"
  by (auto simp: init_resolve_def Let_def stale_v3_def split: option.splits waiter.splits
      intro!: stale_runCode_resume[unfolded stale_v3_def])

lemma stale_init_reject: "stale_v3 s n \<Longrightarrow> stale_v3 (init_reject w m s) n"
  by (auto simp: init_reject_def Let_def stale_v3_def runCode_catch_v3_def split: option.splits waiter.splits)

lemma stale_step: "stale_v3 s n \<Longrightarrow> stale_v3 (step_v3 p js s e) n"
proof (cases e)
  case Mount3
  assume "stale_v3 s n"
  then show ?thesis using Mount3 by (simp add: mount_v3_def stale_initializeWorker)
next
  case ClickRun3
  assume "stale_v3 s n"
  then show ?thesis using ClickRun3 by (simp add: stale_runCode)
next
  case ClickStop3
  assume "stale_v3 s n"
  then show ?thesis using ClickStop3 by (simp add: stopExecution_v3_def stale_v3_def)
next
  case ClickReset3
  assume "stale_v3 s n"
  then show ?thesis using ClickReset3 by (simp add: resetCode_v3_def stale_v3_def)
next
  case ClickClear3
  assume "stale_v3 s n"
  then show ?thesis using ClickClear3 by (simp add: clearOutput_v3_def stale_v3_def)
next
  case (Edit3 t)
  assume "stale_v3 s n"
  then show ?thesis using Edit3 by (simp add: stale_v3_def)
next
  case (WorkerMessage3 w msg)
  assume a: "stale_v3 s n"
  then have "stale_v3 (s\<lparr>isWorkerReady_v3 := True\<rparr>) n" by (simp add: stale_v3_def)
  then have "stale_v3 (init_resolve w (clear_init_timer w (s\<lparr>isWorkerReady_v3 := True\<rparr>))) n"
    by (intro stale_init_resolve stale_clear_init_timer)
  with a show ?thesis using WorkerMessage3
    by (simp add: worker_onmessage_v3_def stale_handleWorkerMessage)
next
  case (WorkerError3 w m)
  assume a: "stale_v3 s n"
  then have "stale_v3 (s\<lparr>isWorkerReady_v3 := False\<rparr>) n" by (simp add: stale_v3_def)
  then have "stale_v3 (init_reject w m (clear_init_timer w (s\<lparr>isWorkerReady_v3 := False\<rparr>))) n"
    by (intro stale_init_reject stale_clear_init_timer)
  with a show ?thesis using WorkerError3 by (simp add: worker_onerror_v3_def)
next
  case (InitTimeout3 w)
  assume a: "stale_v3 s n"
  then show ?thesis using InitTimeout3
    by (simp add: init_timeout_v3_def stale_init_reject stale_clear_init_timer)
next
  case (TimerFired3 k)
  assume a: "stale_v3 s n"
  then show ?thesis using TimerFired3 by (auto simp: timer_v3_def stale_v3_def)
qed

lemma stale_run: "stale_v3 s n \<Longrightarrow> stale_v3 (run_v3 p js s evs) n"
  unfolding run_v3_def by (induction evs arbitrary: s) (simp_all add: stale_step)

lemma stale_message_ignored:
  assumes "stale_v3 s n" and "run_id msg = JNum n" and "\<not> is_ready_message msg"
  shows "step_v3 p js (run_v3 p js s evs) (WorkerMessage3 w msg) = run_v3 p js s evs"
proof -
  have "stale_v3 (run_v3 p js s evs) n" using assms(1) by (rule stale_run)
  then have "pending_key (run_v3 p js s evs) (run_id msg) = None"
    using assms(2) by (simp add: pending_key_stale)
  then show ?thesis using assms(3)
    by (simp add: worker_onmessage_v3_def is_ready_message_def handleWorkerMessage_not_pending)
qed

lemma wf_v3_initial: "wf_v3 (initial_v3 p)"
  by (simp add: wf_v3_def initial_v3_def)

lemma list_all_le_mono: "list_all (\<lambda>n. n \<le> (a::nat)) xs \<Longrightarrow> a \<le> b \<Longrightarrow> list_all (\<lambda>n. n \<le> b) xs"
  by (induction xs) auto

lemma wf_handleWorkerMessage: "wf_v3 s \<Longrightarrow> wf_v3 (handleWorkerMessage js msg s)"
  by (auto simp: handleWorkerMessage_def wf_v3_def Let_def list_all_iff split: option.splits)

lemma wf_runCode_resume: "wf_v3 s \<Longrightarrow> wf_v3 (runCode_resume_v3 c w s)"
  by (auto simp: runCode_resume_v3_def runCode_catch_v3_def wf_v3_def Let_def list_all_iff)

lemma wf_initializeWorker: "wf_v3 s \<Longrightarrow> wf_v3 (fst (initializeWorker wt s))"
  by (auto simp: initializeWorker_def start_worker_v3_def wf_v3_def Let_def split: option.splits)

lemma wf_runCode: "wf_v3 s \<Longrightarrow> wf_v3 (runCode_v3 s)"
proof -
  assume a: "wf_v3 s"
  let ?s1 = "s\<lparr>lastError_v3 := JNull, isHtmlOutput_v3 := False, output_v3 := [], status_v3 := Loading\<rparr>"
  from a have b: "wf_v3 ?s1" by (simp add: wf_v3_def)
  have c: "wf_v3 (fst (initializeWorker (RunWaiter (src_v3 s)) ?s1))"
    using b by (rule wf_initializeWorker)
  show ?thesis
    using c by (auto simp: runCode_v3_def Let_def split: prod.splits option.splits intro: wf_runCode_resume)
qed

lemma wf_clear_init_timer: "wf_v3 s \<Longrightarrow> wf_v3 (clear_init_timer w s)"
  by (auto simp: clear_init_timer_def wf_v3_def split: option.splits)

lemma wf_inits_update: "wf_v3 s \<Longrightarrow> wf_v3 (s\<lparr>inits_v3 := f\<rparr>)"
  by (simp add: wf_v3_def)

lemma wf_init_resolve: "wf_v3 s \<Longrightarrow> wf_v3 (init_resolve w s)"
  by (auto simp: init_resolve_def Let_def split: option.splits waiter.splits
      intro!: wf_runCode_resume wf_inits_update)

lemma wf_init_reject: "wf_v3 s \<Longrightarrow> wf_v3 (init_reject w m s)"
  by (auto simp: init_reject_def Let_def wf_v3_def runCode_catch_v3_def split: option.splits waiter.splits)

lemma wf_step: "wf_v3 s \<Longrightarrow> wf_v3 (step_v3 p js s e)"
proof (cases e)
  case Mount3
  assume "wf_v3 s"
  then show ?thesis using Mount3 by (simp add: mount_v3_def wf_initializeWorker)
next
  case ClickRun3
  assume "wf_v3 s"
  then show ?thesis using ClickRun3 by (simp add: wf_runCode)
next
  case ClickStop3
  assume "wf_v3 s"
  then show ?thesis using ClickStop3 by (auto simp: stopExecution_v3_def wf_v3_def)
next
  case ClickReset3
  assume "wf_v3 s"
  then show ?thesis using ClickReset3 by (simp add: resetCode_v3_def wf_v3_def)
next
  case ClickClear3
  assume "wf_v3 s"
  then show ?thesis using ClickClear3 by (simp add: clearOutput_v3_def wf_v3_def)
next
  case (Edit3 t)
  assume "wf_v3 s"
  then show ?thesis using Edit3 by (simp add: wf_v3_def)
next
  case (WorkerMessage3 w msg)
  assume a: "wf_v3 s"
  then have "wf_v3 (s\<lparr>isWorkerReady_v3 := True\<rparr>)" by (simp add: wf_v3_def)
  then have "wf_v3 (init_resolve w (clear_init_timer w (s\<lparr>isWorkerReady_v3 := True\<rparr>)))"
    by (intro wf_init_resolve wf_clear_init_timer)
  with a show ?thesis using WorkerMessage3
    by (simp add: worker_onmessage_v3_def wf_handleWorkerMessage)
next
  case (WorkerError3 w m)
  assume a: "wf_v3 s"
  then have "wf_v3 (s\<lparr>isWorkerReady_v3 := False\<rparr>)" by (simp add: wf_v3_def)
  then have "wf_v3 (init_reject w m (clear_init_timer w (s\<lparr>isWorkerReady_v3 := False\<rparr>)))"
    by (intro wf_init_reject wf_clear_init_timer)
  with a show ?thesis using WorkerError3 by (simp add: worker_onerror_v3_def)
next
  case (InitTimeout3 w)
  assume a: "wf_v3 s"
  then show ?thesis using InitTimeout3
    by (simp add: init_timeout_v3_def wf_init_reject wf_clear_init_timer)
next
  case (TimerFired3 k)
  assume a: "wf_v3 s"
  then show ?thesis using TimerFired3 by (auto simp: timer_v3_def wf_v3_def list_all_iff)
qed

lemma wf_run: "wf_v3 s \<Longrightarrow> wf_v3 (run_v3 p js s evs)"
  unfolding run_v3_def by (induction evs arbitrary: s) (simp_all add: wf_step)

lemma timer_fires_v3:
  assumes "wf_v3 s" and "n \<in> set (timers_v3 s)"
  shows "status_v3 (step_v3 p js s (TimerFired3 n)) = Timeout"
    and "lastError_v3 (step_v3 p js s (TimerFired3 n)) = JStr (timeout_message_v3 (p_timeoutMs p))"
    and "output_v3 (step_v3 p js s (TimerFired3 n)) = ''[Error] Execution timeout''"
    and "stale_v3 (step_v3 p js s (TimerFired3 n)) n"
  using assms by (auto simp: wf_v3_def timer_v3_def stale_v3_def list_all_iff)

lemma stop_v3:
  "pending_v3 (stopExecution_v3 s) = []"
  "status_v3 (stopExecution_v3 s) = Stopped"
  "output_v3 (stopExecution_v3 s) = ''[Execution stopped]''"
  "n \<in> set (pending_v3 s) \<Longrightarrow> n \<notin> set (timers_v3 (stopExecution_v3 s))"
  "terminated_v3 (stopExecution_v3 s) = terminated_v3 s"
  "workerRef_v3 (stopExecution_v3 s) = workerRef_v3 s"
  by (simp_all add: stopExecution_v3_def)

lemma awaited_reject:
  assumes "awaited_by_run t w"
  shows "status_v3 (init_reject w m t) = Error"
    and "lastError_v3 (init_reject w m t) = m"
    and "output_v3 (init_reject w m t) = ''[Error] '' @ to_String m"
    and "same_runs_v3 t (init_reject w m t)"
  using assms
  by (auto simp: awaited_by_run_def init_reject_def runCode_catch_v3_def Let_def same_runs_v3_def
      split: option.splits waiter.splits)

lemma awaited_clear: "awaited_by_run t w \<Longrightarrow> awaited_by_run (clear_init_timer w t) w"
  by (auto simp: awaited_by_run_def clear_init_timer_def split: option.splits waiter.splits)

lemma awaited_ready_flag: "awaited_by_run t w \<Longrightarrow> awaited_by_run (t\<lparr>isWorkerReady_v3 := b\<rparr>) w"
  by (simp add: awaited_by_run_def)

lemma same_runs_clear: "same_runs_v3 t (clear_init_timer w (t\<lparr>isWorkerReady_v3 := b\<rparr>))"
  "same_runs_v3 t (clear_init_timer w t)"
  by (auto simp: same_runs_v3_def clear_init_timer_def split: option.splits)

lemma same_runs_trans: "same_runs_v3 a b \<Longrightarrow> same_runs_v3 b c \<Longrightarrow> same_runs_v3 a c"
  by (simp add: same_runs_v3_def)

lemma awaited_onerror:
  assumes "awaited_by_run t w"
  shows "status_v3 (worker_onerror_v3 w m t) = Error"
    and "lastError_v3 (worker_onerror_v3 w m t) = m"
    and "output_v3 (worker_onerror_v3 w m t) = ''[Error] '' @ to_String m"
    and "same_runs_v3 t (worker_onerror_v3 w m t)"
proof -
  let ?t1 = "clear_init_timer w (t\<lparr>isWorkerReady_v3 := False\<rparr>)"
  have a: "awaited_by_run ?t1 w" using assms by (intro awaited_clear awaited_ready_flag)
  note r = awaited_reject[OF a, of m]
  show "status_v3 (worker_onerror_v3 w m t) = Error" using r(1) by (simp add: worker_onerror_v3_def)
  show "lastError_v3 (worker_onerror_v3 w m t) = m" using r(2) by (simp add: worker_onerror_v3_def)
  show "output_v3 (worker_onerror_v3 w m t) = ''[Error] '' @ to_String m"
    using r(3) by (simp add: worker_onerror_v3_def)
  show "same_runs_v3 t (worker_onerror_v3 w m t)"
    using same_runs_trans[OF same_runs_clear(1) r(4)] by (simp add: worker_onerror_v3_def)
qed

lemma awaited_timeout:
  assumes "awaited_by_run t w"
  shows "status_v3 (init_timeout_v3 w t) = Error"
    and "lastError_v3 (init_timeout_v3 w t) = JStr ''Worker initialization timeout''"
    and "output_v3 (init_timeout_v3 w t) = ''[Error] Worker initialization timeout''"
    and "same_runs_v3 t (init_timeout_v3 w t)"
proof -
  let ?t1 = "clear_init_timer w t"
  have a: "awaited_by_run ?t1 w" using assms by (rule awaited_clear)
  note r = awaited_reject[OF a, of "JStr ''Worker initialization timeout''"]
  show "status_v3 (init_timeout_v3 w t) = Error" using r(1) by (simp add: init_timeout_v3_def)
  show "lastError_v3 (init_timeout_v3 w t) = JStr ''Worker initialization timeout''"
    using r(2) by (simp add: init_timeout_v3_def)
  show "output_v3 (init_timeout_v3 w t) = ''[Error] Worker initialization timeout''"
    using r(3) by (simp add: init_timeout_v3_def)
  show "same_runs_v3 t (init_timeout_v3 w t)"
    using same_runs_trans[OF same_runs_clear(2) r(4)] by (simp add: init_timeout_v3_def)
qed

lemma runCode_v3_not_ready:
  assumes "\<not> (workerRef_v3 s \<noteq> None \<and> isWorkerReady_v3 s)"
  shows "status_v3 (runCode_v3 s) = Loading"
    and "same_runs_v3 s (runCode_v3 s)"
    and "awaited_by_run (runCode_v3 s) (Suc (workers_v3 s))"
  using assms
  by (auto simp: runCode_v3_def initializeWorker_def start_worker_v3_def Let_def same_runs_v3_def
      awaited_by_run_def split: option.splits)

lemma handleWorkerMessage_settles:
  assumes "wf_v3 s" and "0 < n" and "n \<in> set (pending_v3 s)" and "run_id msg = JNum n"
    and "m_type msg = JStr ''result'' \<or> m_type msg = JStr ''error''"
  shows "stale_v3 (handleWorkerMessage js msg s) n"
  using assms
  by (auto simp: handleWorkerMessage_def run_id_def pending_key_def stale_v3_def wf_v3_def
      list_all_iff Let_def)


section \<open>Lemmas: the second implementation\<close>

lemma str_includes_prefix: "str_includes (p @ b) p"
proof (cases "p @ b")
  case Nil
  then show ?thesis by simp
next
  case (Cons x xs)
  have "take (length p) (p @ b) = p" by simp
  with Cons show ?thesis by simp
qed

lemma str_includes_append: "str_includes (a @ p @ b) p"
  by (induction a) (simp_all add: str_includes_prefix)

lemma toLowerCase_append: "toLowerCase (a @ b) = toLowerCase a @ toLowerCase b"
  by (simp add: toLowerCase_def)

lemma timeout_message_v2_includes:
  "str_includes (toLowerCase (timeout_message_v2 n)) ''timeout''"
proof -
  have "toLowerCase (timeout_message_v2 n) =
        ''client-side '' @ ''timeout'' @ ('' after '' @ toLowerCase (string_of_nat n) @ '' ms'')"
    by (simp add: timeout_message_v2_def toLowerCase_def lower_char_def)
  then show ?thesis by (simp only: str_includes_append)
qed


lemma timeout_message_v2_nonempty: "timeout_message_v2 n \<noteq> []"
  by (simp add: timeout_message_v2_def)

lemma visible_runs_update: "visible_v2 (s\<lparr>runs_v2 := f\<rparr>) = visible_v2 s"
  by (simp add: visible_v2_def)

lemma done_finish: "done_v2 s k \<Longrightarrow> done_v2 (finish_v2 j s) k"
  by (auto simp: finish_v2_def done_v2_def settled_v2_def split: option.splits)

lemma done_resolve: "done_v2 s k \<Longrightarrow> done_v2 (resolve_v2 j x s) k"
  by (auto simp: resolve_v2_def runCode_ok_v2_def done_v2_def settled_v2_def split: option.splits)

lemma done_reject: "done_v2 s k \<Longrightarrow> done_v2 (reject_v2 j x s) k"
  by (auto simp: reject_v2_def runCode_catch_v2_def done_v2_def settled_v2_def split: option.splits)

lemma done_onmessage: "done_v2 s k \<Longrightarrow> done_v2 (onmessage_v2 j msg s) k"
  by (simp add: onmessage_v2_def done_finish done_resolve done_reject)

lemma done_onerror: "done_v2 s k \<Longrightarrow> done_v2 (onerror_v2 j m s) k"
  by (simp add: onerror_v2_def done_finish done_reject)

lemma done_disarm: "done_v2 s k \<Longrightarrow> done_v2 (disarm_v2 j s) k"
  by (auto simp: disarm_v2_def done_v2_def settled_v2_def split: option.splits)

lemma done_timer: "done_v2 s k \<Longrightarrow> done_v2 (timer_v2 p j s) k"
  by (auto simp: timer_v2_def done_finish done_reject split: option.splits)

lemma done_runCode: "done_v2 s k \<Longrightarrow> done_v2 (runCode_v2 s) k"
  by (auto simp: runCode_v2_def runCode_catch_v2_def done_v2_def settled_v2_def Let_def split: option.splits)

lemma done_stop: "done_v2 s k \<Longrightarrow> done_v2 (stopExecution_v2 s) k"
  by (auto simp: stopExecution_v2_def done_v2_def settled_v2_def split: option.splits)

lemma done_step: "done_v2 s k \<Longrightarrow> done_v2 (step_v2 p s e) k"
proof (cases e)
  case Mount2
  assume "done_v2 s k"
  then show ?thesis using Mount2 by (simp add: done_v2_def settled_v2_def)
next
  case ClickRun2
  assume "done_v2 s k"
  then show ?thesis using ClickRun2 by (simp add: done_runCode)
next
  case ClickStop2
  assume "done_v2 s k"
  then show ?thesis using ClickStop2 by (simp add: done_stop)
next
  case ClickReset2
  assume "done_v2 s k"
  then show ?thesis using ClickReset2 by (simp add: resetCode_v2_def done_v2_def settled_v2_def)
next
  case ClickClear2
  assume "done_v2 s k"
  then show ?thesis using ClickClear2 by (simp add: clear_v2_def done_v2_def settled_v2_def)
next
  case (Edit2 t)
  assume "done_v2 s k"
  then show ?thesis using Edit2 by (simp add: done_v2_def settled_v2_def)
next
  case (WorkerMessage2 j msg)
  assume "done_v2 s k"
  then show ?thesis using WorkerMessage2 by (simp add: done_onmessage)
next
  case (WorkerError2 j m)
  assume "done_v2 s k"
  then show ?thesis using WorkerError2 by (simp add: done_onerror)
next
  case (TimerFired2 j)
  assume "done_v2 s k"
  then show ?thesis using TimerFired2 by (simp add: done_timer done_disarm)
qed

lemma done_run: "done_v2 s k \<Longrightarrow> done_v2 (run_v2 p s evs) k"
  unfolding run_v2_def by (induction evs arbitrary: s) (simp_all add: done_step)

lemma settled_finish: "settled_v2 s k \<Longrightarrow> settled_v2 (finish_v2 k s) k"
  by (auto simp: finish_v2_def settled_v2_def split: option.splits)

lemma visible_finish: "visible_v2 (finish_v2 k s) = visible_v2 s"
  by (auto simp: finish_v2_def visible_v2_def split: option.splits)

lemma resolve_settled: "settled_v2 s k \<Longrightarrow> resolve_v2 k x s = s"
  by (auto simp: resolve_v2_def settled_v2_def split: option.splits)

lemma reject_settled: "settled_v2 s k \<Longrightarrow> reject_v2 k x s = s"
  by (auto simp: reject_v2_def settled_v2_def split: option.splits)

lemma onmessage_settled:
  "settled_v2 s k \<Longrightarrow> visible_v2 (onmessage_v2 k msg s) = visible_v2 s"
  by (simp add: onmessage_v2_def resolve_settled reject_settled settled_finish visible_finish)

lemma onerror_settled:
  "settled_v2 s k \<Longrightarrow> visible_v2 (onerror_v2 k m s) = visible_v2 s"
  by (simp add: onerror_v2_def reject_settled settled_finish visible_finish)

lemma timer_settled:
  "settled_v2 s k \<Longrightarrow> visible_v2 (timer_v2 p k s) = visible_v2 s"
  by (auto simp: timer_v2_def reject_settled settled_finish visible_finish split: option.splits)

lemma onmessage_other_id:
  "truthy (m_id msg) \<Longrightarrow> m_id msg \<noteq> JNum k \<Longrightarrow> onmessage_v2 k msg s = s"
  by (simp add: onmessage_v2_def)

lemma timer_fires_v2:
  assumes "waiting_v2 s k"
  shows "status_v2 (step_v2 p s (TimerFired2 k)) = Timeout"
    and "lastError_v2 (step_v2 p s (TimerFired2 k)) = JStr (timeout_message_v2 (p_timeoutMs p))"
    and "output_v2 (step_v2 p s (TimerFired2 k)) = ''[Error] '' @ timeout_message_v2 (p_timeoutMs p)"
    and "done_v2 (step_v2 p s (TimerFired2 k)) k"
  using assms
  by (auto simp: waiting_v2_def timer_armed_v2_def disarm_v2_def timer_v2_def finish_v2_def
      reject_v2_def runCode_catch_v2_def done_v2_def settled_v2_def
      timeout_message_v2_includes timeout_message_v2_nonempty split: option.splits)

lemma runCode_v2_starts:
  assumes "blobUrl_v2 u"
  shows "status_v2 (runCode_v2 u) = Running" and "waiting_v2 (runCode_v2 u) (Suc (runIdRef_v2 u))"
  using assms by (simp_all add: runCode_v2_def Let_def waiting_v2_def)

lemma load_failure_reply_v2:
  assumes "waiting_v2 u k" and "load_with_fallback fetch tries = None"
  shows "status_v2 (onmessage_v2 k (worker_reply_v2 te fetch tries k oc) u) =
           (if str_includes (toLowerCase (''Could not load php-wasm runtime from '' @ join_or tries)) ''timeout''
            then Timeout else Error)"
    and "lastError_v2 (onmessage_v2 k (worker_reply_v2 te fetch tries k oc) u) =
           JStr (''Could not load php-wasm runtime from '' @ join_or tries)"
    and "output_v2 (onmessage_v2 k (worker_reply_v2 te fetch tries k oc) u) =
           ''[Error] Could not load php-wasm runtime from '' @ join_or tries"
  using assms
  by (auto simp: waiting_v2_def worker_reply_v2_def error_reply_def empty_message_def onmessage_v2_def
      finish_v2_def reject_v2_def runCode_catch_v2_def js_or_def split: option.splits)

lemma onmessage_settles:
  assumes "waiting_v2 t k" and "m_id msg = JNum k"
    and "m_type msg = JStr ''result'' \<or> m_type msg = JStr ''error''"
  shows "done_v2 (onmessage_v2 k msg t) k"
  using assms
  by (auto simp: onmessage_v2_def waiting_v2_def done_v2_def settled_v2_def resolve_v2_def
      reject_v2_def finish_v2_def runCode_ok_v2_def runCode_catch_v2_def split: option.splits)


section \<open>Lemmas: the first implementation\<close>

lemma call_bound_mono: "call_bound n e \<Longrightarrow> n \<le> m \<Longrightarrow> call_bound m e"
  by (cases e) auto

lemma call_bound_fresh: "call_bound n e \<Longrightarrow> \<not> calls_engine e (Suc n)"
  by (cases e) auto

lemma wf_v1_fresh: "wf_v1 s \<Longrightarrow> \<not> engine_called_v1 s (Suc (calls_v1 s))"
  by (auto simp: wf_v1_def engine_called_v1_def list_all_iff list_ex_iff dest: call_bound_fresh)

lemma wf_v1_extend:
  assumes "wf_v1 s" and "calls_v1 s \<le> calls_v1 s'" and "effects_v1 s' = effects_v1 s @ es"
    and "list_all (call_bound (calls_v1 s')) es"
  shows "wf_v1 s'"
  using assms by (auto simp: wf_v1_def list_all_iff intro: call_bound_mono)

lemma wf_v1_same:
  assumes "wf_v1 s" and "calls_v1 s' = calls_v1 s" and "effects_v1 s' = effects_v1 s"
  shows "wf_v1 s'"
  using assms by (simp add: wf_v1_def)

lemma never_called_runCode: "never_called_v1 s k \<Longrightarrow> never_called_v1 (runCode_v1 s) k"
  by (auto simp: runCode_v1_def never_called_v1_def engine_called_v1_def Let_def
      on_race_error_v1_def split: option.splits)

lemma never_called_stop: "never_called_v1 s k \<Longrightarrow> never_called_v1 (stopExecution_v1 s) k"
  by (auto simp: stopExecution_v1_def never_called_v1_def engine_called_v1_def
      split: option.splits)

lemma never_called_load: "never_called_v1 s k \<Longrightarrow> never_called_v1 (load_settled_v1 j l s) k"
  by (auto simp: load_settled_v1_def never_called_v1_def engine_called_v1_def split: load_outcome.splits)

lemma never_called_engine: "never_called_v1 s k \<Longrightarrow> never_called_v1 (engine_settled_v1 j oc s) k"
  by (auto simp: engine_settled_v1_def never_called_v1_def engine_called_v1_def Let_def
      on_race_value_v1_def on_race_error_v1_def split: option.splits phase_v1.splits engine_outcome.splits)

lemma never_called_timer: "never_called_v1 s k \<Longrightarrow> never_called_v1 (timer_fired_v1 ms j s) k"
  by (auto simp: timer_fired_v1_def never_called_v1_def engine_called_v1_def Let_def
      on_race_error_v1_def split: option.splits phase_v1.splits)

lemma never_called_step: "never_called_v1 s k \<Longrightarrow> never_called_v1 (step_v1 p s e) k"
proof (cases e)
  case ClickRun1
  assume "never_called_v1 s k"
  then show ?thesis using ClickRun1 by (simp add: never_called_runCode)
next
  case ClickStop1
  assume "never_called_v1 s k"
  then show ?thesis using ClickStop1 by (simp add: never_called_stop)
next
  case ClickReset1
  assume "never_called_v1 s k"
  then show ?thesis using ClickReset1 by (simp add: reset_v1_def never_called_v1_def engine_called_v1_def)
next
  case ClickClear1
  assume "never_called_v1 s k"
  then show ?thesis using ClickClear1 by (simp add: clear_v1_def never_called_v1_def engine_called_v1_def)
next
  case (Edit1 t)
  assume "never_called_v1 s k"
  then show ?thesis using Edit1 by (simp add: never_called_v1_def engine_called_v1_def)
next
  case (LoadSettled1 j l)
  assume "never_called_v1 s k"
  then show ?thesis using LoadSettled1 by (simp add: never_called_load)
next
  case (EngineSettled1 j oc)
  assume "never_called_v1 s k"
  then show ?thesis using EngineSettled1 by (simp add: never_called_engine)
next
  case (TimerFired1 j)
  assume "never_called_v1 s k"
  then show ?thesis using TimerFired1 by (simp add: never_called_timer)
qed

lemma never_called_run: "never_called_v1 s k \<Longrightarrow> never_called_v1 (run_v1 p s evs) k"
  unfolding run_v1_def by (induction evs arbitrary: s) (simp_all add: never_called_step)

lemma runCode_no_engine:
  assumes "php_v1 s = None" and "wf_v1 s"
  shows "never_called_v1 (runCode_v1 s) (Suc (calls_v1 s))"
    and "output_v1 (runCode_v1 s) = []"
    and "effects_v1 (runCode_v1 s) = effects_v1 s"
    and "error_v1 (runCode_v1 s) = None"
    and "isRunning_v1 (runCode_v1 s) = (\<not> isLoadingRuntime_v1 s)"
    and "phase_v1 (runCode_v1 s) (Suc (calls_v1 s)) = Some (if isLoadingRuntime_v1 s then Finished else AwaitLoad)"
  using assms wf_v1_fresh[of s]
  by (auto simp: runCode_v1_def never_called_v1_def engine_called_v1_def Let_def)

lemma load_settled_awaiting:
  assumes "phase_v1 s k = Some AwaitLoad"
  shows "isRunning_v1 (load_settled_v1 k l s) = False"
    and "isLoadingRuntime_v1 (load_settled_v1 k l s) = False"
    and "output_v1 (load_settled_v1 k l s) = output_v1 s"
    and "effects_v1 (load_settled_v1 k l s) = effects_v1 s"
    and "phase_v1 (load_settled_v1 k l s) k = Some Finished"
    and "l = Loaded e \<Longrightarrow> php_v1 (load_settled_v1 k l s) = Some e \<and> error_v1 (load_settled_v1 k l s) = error_v1 s"
    and "l = LoadedNothing \<Longrightarrow> php_v1 (load_settled_v1 k l s) = None \<and> error_v1 (load_settled_v1 k l s) = error_v1 s"
    and "l = LoadFailed \<Longrightarrow> php_v1 (load_settled_v1 k l s) = php_v1 s \<and> error_v1 (load_settled_v1 k l s) = Some load_failed_message"
  using assms by (auto simp: load_settled_v1_def split: load_outcome.splits)

lemma wf_v1_initial: "wf_v1 (initial_v1 p)"
  by (simp add: wf_v1_def initial_v1_def)

lemma on_race_value_frame:
  "calls_v1 (on_race_value_v1 r s) = calls_v1 s" "effects_v1 (on_race_value_v1 r s) = effects_v1 s"
  by (simp_all add: on_race_value_v1_def)

lemma on_race_error_frame:
  "calls_v1 (on_race_error_v1 m s) = calls_v1 s" "effects_v1 (on_race_error_v1 m s) = effects_v1 s"
  by (simp_all add: on_race_error_v1_def)

lemma wf_v1_runCode: "wf_v1 s \<Longrightarrow> wf_v1 (runCode_v1 s)"
  by (auto simp: wf_v1_def list_all_iff runCode_v1_def Let_def on_race_error_frame
      split: option.splits intro: call_bound_mono)

lemma wf_v1_stop: "wf_v1 s \<Longrightarrow> wf_v1 (stopExecution_v1 s)"
  by (auto simp: wf_v1_def list_all_iff stopExecution_v1_def split: option.splits)

lemma wf_v1_load: "wf_v1 s \<Longrightarrow> wf_v1 (load_settled_v1 k l s)"
  by (auto simp: wf_v1_def load_settled_v1_def split: load_outcome.splits)

lemma wf_v1_engine: "wf_v1 s \<Longrightarrow> wf_v1 (engine_settled_v1 k oc s)"
  by (auto simp: wf_v1_def engine_settled_v1_def Let_def on_race_value_frame on_race_error_frame
      split: option.splits phase_v1.splits engine_outcome.splits)

lemma wf_v1_timer: "wf_v1 s \<Longrightarrow> wf_v1 (timer_fired_v1 ms k s)"
  by (auto simp: wf_v1_def timer_fired_v1_def on_race_error_frame split: option.splits phase_v1.splits)

lemma wf_v1_step: "wf_v1 s \<Longrightarrow> wf_v1 (step_v1 p s e)"
  by (cases e)
     (simp_all add: wf_v1_runCode wf_v1_stop wf_v1_load wf_v1_engine wf_v1_timer,
      simp_all add: wf_v1_def reset_v1_def clear_v1_def)

lemma wf_v1_run: "wf_v1 s \<Longrightarrow> wf_v1 (run_v1 p s evs)"
  unfolding run_v1_def by (induction evs arbitrary: s) (simp_all add: wf_v1_step)

lemma finished_on_race_value: "finished_v1 s k \<Longrightarrow> finished_v1 (on_race_value_v1 r s) k"
  by (simp add: finished_v1_def on_race_value_v1_def)

lemma finished_on_race_error: "finished_v1 s k \<Longrightarrow> finished_v1 (on_race_error_v1 m s) k"
  by (simp add: finished_v1_def on_race_error_v1_def)

lemma finished_phase_update:
  "finished_v1 s k \<Longrightarrow> finished_v1 (s\<lparr>phase_v1 := (phase_v1 s)(j \<mapsto> Finished)\<rparr>) k"
  by (simp add: finished_v1_def)

lemma finished_runCode: "finished_v1 s k \<Longrightarrow> finished_v1 (runCode_v1 s) k"
  by (auto simp: runCode_v1_def finished_v1_def Let_def on_race_error_v1_def split: option.splits)

lemma finished_load: "finished_v1 s k \<Longrightarrow> finished_v1 (load_settled_v1 j l s) k"
  by (auto simp: load_settled_v1_def finished_v1_def split: load_outcome.splits)

lemma finished_engine: "finished_v1 s k \<Longrightarrow> finished_v1 (engine_settled_v1 j oc s) k"
  by (auto simp: engine_settled_v1_def Let_def
      split: option.splits phase_v1.splits engine_outcome.splits
      intro!: finished_on_race_value finished_on_race_error finished_phase_update)

lemma finished_timer: "finished_v1 s k \<Longrightarrow> finished_v1 (timer_fired_v1 ms j s) k"
  by (auto simp: timer_fired_v1_def split: option.splits phase_v1.splits
      intro!: finished_on_race_error finished_phase_update)

lemma finished_step: "finished_v1 s k \<Longrightarrow> finished_v1 (step_v1 p s e) k"
  by (cases e)
     (simp_all add: finished_runCode finished_load finished_engine finished_timer,
      simp_all add: finished_v1_def stopExecution_v1_def reset_v1_def clear_v1_def)

lemma finished_run: "finished_v1 s k \<Longrightarrow> finished_v1 (run_v1 p s evs) k"
  unfolding run_v1_def by (induction evs arbitrary: s) (simp_all add: finished_step)

lemma finished_events_idle:
  assumes "finished_v1 s k"
  shows "load_settled_v1 k l s = s" and "engine_settled_v1 k oc s = s" and "timer_fired_v1 ms k s = s"
  using assms by (simp_all add: finished_v1_def load_settled_v1_def engine_settled_v1_def timer_fired_v1_def)

lemma racing_settles:
  assumes "racing_v1 s k"
  shows "finished_v1 (engine_settled_v1 k oc s) k" and "finished_v1 (timer_fired_v1 ms k s) k"
  using assms
  by (auto simp: racing_v1_def finished_v1_def engine_settled_v1_def timer_fired_v1_def Let_def
      on_race_value_v1_def on_race_error_v1_def
      split: option.splits phase_v1.splits engine_outcome.splits)

lemma runCode_v1_with_engine:
  assumes "php_v1 s = Some e"
  shows "racing_v1 (runCode_v1 s) (Suc (calls_v1 s)) \<or> finished_v1 (runCode_v1 s) (Suc (calls_v1 s))"
  using assms
  by (auto simp: runCode_v1_def racing_v1_def finished_v1_def Let_def on_race_error_v1_def)

section \<open>Unfolding the definitions on concrete inputs\<close>

lemmas common_eval = example_props_def example_engine_def example_json_def ready_message_def
  empty_message_def js_or_def Let_def

lemmas v1_eval = run_v1_def initial_v1_def runCode_v1_def runner_v1_def load_settled_v1_def
  engine_settled_v1_def timer_fired_v1_def on_race_value_v1_def on_race_error_v1_def
  stopExecution_v1_def reset_v1_def clear_v1_def normalize_result_v1_def

lemmas v2_eval = run_v2_def initial_v2_def runCode_v2_def runCode_ok_v2_def runCode_catch_v2_def
  resolve_v2_def reject_v2_def finish_v2_def onmessage_v2_def onerror_v2_def timer_v2_def
  stopExecution_v2_def resetCode_v2_def clear_v2_def delivers_v2_def timer_armed_v2_def
  disarm_v2_def worker_reply_v2_def error_reply_def

lemmas v3_eval = run_v3_def initial_v3_def mount_v3_def initializeWorker_def start_worker_v3_def
  runCode_v3_def runCode_resume_v3_def runCode_catch_v3_def init_resolve_def init_reject_def
  clear_init_timer_def worker_onmessage_v3_def worker_onerror_v3_def init_timeout_v3_def
  handleWorkerMessage_def normalize_message_def pending_key_def timer_v3_def stopExecution_v3_def
  resetCode_v3_def clearOutput_v3_def delivers_v3_def init_timer_armed_def run_reply_v3_def
  ping_reply_v3_def CDN_SOURCES_def

lemma run_v3_snoc: "step_v3 p js (run_v3 p js s evs) e = run_v3 p js s (evs @ [e])"
  by (simp add: run_v3_def)

lemma run_v3_run: "run_v3 p js (run_v3 p js s evs) evs' = run_v3 p js s (evs @ evs')"
  by (simp add: run_v3_def)

lemma run_v2_snoc: "step_v2 p (run_v2 p s evs) e = run_v2 p s (evs @ [e])"
  by (simp add: run_v2_def)

lemma run_v2_run: "run_v2 p (run_v2 p s evs) evs' = run_v2 p s (evs @ evs')"
  by (simp add: run_v2_def)

lemma run_v1_snoc: "step_v1 p (run_v1 p s evs) e = run_v1 p s (evs @ [e])"
  by (simp add: run_v1_def)

lemma run_v1_run: "run_v1 p (run_v1 p s evs) evs' = run_v1 p s (evs @ evs')"
  by (simp add: run_v1_def)

section \<open>Claims: classification, normalisation, escaping\<close>

text \<open>
  Claim C6. The specification's pattern is a \<open><\<close> followed by a letter, then
  arbitrary content, then a \<open>>\<close>; it says a text is markup if and only if it contains a
  match. The expression of the code also takes a \<open>/\<close> between the \<open><\<close> and the letter,
  so a lone closing tag is markup for the code and no match of the pattern as worded.
\<close>

theorem classification_counterexample:
  "looksLikeHTML ''</b>'' \<and> \<not> spec_contains_tag ''</b>''"
  by (simp add: looksLikeHTML_def is_letter_def)

text \<open>
  Claim C6, as amended. A text is classified as markup if and only if it contains a
  \<open><\<close>, then optionally a \<open>/\<close>, then at once an ASCII letter, then any content, then a
  \<open>>\<close>. The second and third versions apply the same test to the result. Every text
  that contains a match of the pattern as the specification words it is markup.
\<close>

theorem classification_by_tag_pattern:
  "(looksLikeHTML s \<longleftrightarrow>
      (\<exists>pre slash c mid post.
         s = pre @ ''<'' @ slash @ [c] @ mid @ ''>'' @ post \<and>
         (slash = [] \<or> slash = ''/'') \<and> is_letter c)) \<and>
   tag_regex_test s = looksLikeHTML s \<and>
   (spec_contains_tag s \<longrightarrow> looksLikeHTML s)"
proof -
  have a: "looksLikeHTML s = tag_regex_test s" by (rule looksLikeHTML_eq)
  have b: "tag_regex_test s \<longleftrightarrow>
      (\<exists>pre slash c mid post.
         s = pre @ ''<'' @ slash @ [c] @ mid @ ''>'' @ post \<and>
         (slash = [] \<or> slash = ''/'') \<and> is_letter c)"
  proof
    assume "tag_regex_test s"
    then obtain pre t where s: "s = pre @ t" and t: "tag_at t"
      unfolding tag_regex_test_iff by blast
    from t obtain c mid post where c: "is_letter c"
      and d: "t = CHR ''<'' # c # mid @ CHR ''>'' # post \<or>
              t = CHR ''<'' # CHR ''/'' # c # mid @ CHR ''>'' # post"
      unfolding tag_at_iff by blast
    from d show "\<exists>pre slash c mid post.
         s = pre @ ''<'' @ slash @ [c] @ mid @ ''>'' @ post \<and>
         (slash = [] \<or> slash = ''/'') \<and> is_letter c"
    proof
      assume "t = CHR ''<'' # c # mid @ CHR ''>'' # post"
      with s have "s = pre @ ''<'' @ [] @ [c] @ mid @ ''>'' @ post" by simp
      with c show ?thesis by blast
    next
      assume "t = CHR ''<'' # CHR ''/'' # c # mid @ CHR ''>'' # post"
      with s have "s = pre @ ''<'' @ ''/'' @ [c] @ mid @ ''>'' @ post" by simp
      with c show ?thesis by blast
    qed
  next
    assume "\<exists>pre slash c mid post.
         s = pre @ ''<'' @ slash @ [c] @ mid @ ''>'' @ post \<and>
         (slash = [] \<or> slash = ''/'') \<and> is_letter c"
    then obtain pre slash c mid post where
      s: "s = pre @ ''<'' @ slash @ [c] @ mid @ ''>'' @ post"
      and sl: "slash = [] \<or> slash = ''/''" and c: "is_letter c"
      by blast
    let ?t = "''<'' @ slash @ [c] @ mid @ ''>'' @ post"
    from sl have "?t = CHR ''<'' # c # mid @ CHR ''>'' # post \<or>
                  ?t = CHR ''<'' # CHR ''/'' # c # mid @ CHR ''>'' # post"
      by auto
    with c have "tag_at ?t" unfolding tag_at_iff by blast
    moreover from s have "s = pre @ ?t" by simp
    ultimately show "tag_regex_test s" unfolding tag_regex_test_iff by blast
  qed
  show ?thesis using a b spec_contains_tag_imp[of s] by simp
qed

theorem classification_by_tag_pattern_witness:
  "looksLikeHTML ''x</b>'' \<and> tag_regex_test ''<h1>Hi</h1>'' \<and> spec_contains_tag ''<h1>Hi</h1>''
   \<and> \<not> looksLikeHTML ''5''"
  using classification_by_tag_pattern[of "''x</b>''"] classification_by_tag_pattern[of "''<h1>Hi</h1>''"]
    classification_by_tag_pattern[of "''5''"]
  by (simp add: is_letter_def looksLikeHTML_def)

text \<open>
  Claim C7. The specification has the normalised result equal to standard output
  followed, when standard error is not empty, by a newline and standard error. The
  first version trims the concatenation, and takes an object whose two fields are
  both empty for an unrecognised shape.
\<close>

theorem normalization_counterexample:
  "normalize_result_v1 (JObj [(''stdout'', JStr '' a''), (''stderr'', JStr [])]) \<noteq> spec_normalized '' a'' [] \<and>
   normalize_result_v1 (JObj [(''stdout'', JStr []), (''stderr'', JStr [])]) \<noteq> spec_normalized [] []"
  by (simp add: normalize_result_v1_def spec_normalized_def js_or_def trim_def js_white_space_def)

text \<open>
  Claim C7, as amended. First version: for an object whose \<open>stdout\<close> and \<open>stderr\<close> are
  strings, at least one of them not empty, the result is the trimmed concatenation
  of standard output and, when standard error is not empty, a newline and standard
  error. Third version: for a message with no \<open>output\<close> and no \<open>result\<close> property
  whose \<open>stdout\<close> and \<open>stderr\<close> are strings, the result is that concatenation,
  untrimmed. A result whose shape is not recognised is stringified: \<open>String(result)\<close>
  in the first version (an object with neither field truthy, a boolean, a number),
  \<open>JSON.stringify(msg)\<close> in the third (no \<open>output\<close>, \<open>result\<close> or \<open>stdout\<close> property).
\<close>

theorem normalization_of_results:
  "(get_field (JObj fs) ''stdout'' = JStr out \<and> get_field (JObj fs) ''stderr'' = JStr err \<and>
      (out \<noteq> [] \<or> err \<noteq> []) \<longrightarrow>
        normalize_result_v1 (JObj fs) = trim (spec_normalized out err)) \<and>
   (m_output msg = JUndefined \<and> m_result msg = JUndefined \<and>
      m_stdout msg = JStr out \<and> m_stderr msg = JStr err \<longrightarrow>
        normalize_message js msg = spec_normalized out err) \<and>
   (\<not> truthy (get_field (JObj fs) ''stdout'') \<and> \<not> truthy (get_field (JObj fs) ''stderr'') \<longrightarrow>
        normalize_result_v1 (JObj fs) = to_String (JObj fs)) \<and>
   normalize_result_v1 (JBool b) = to_String (JBool b) \<and>
   normalize_result_v1 (JNum n) = to_String (JNum n) \<and>
   (m_output msg = JUndefined \<and> m_result msg = JUndefined \<and> m_stdout msg = JUndefined \<longrightarrow>
        normalize_message js msg = js msg)"
  by (auto simp: normalize_result_v1_def normalize_message_def spec_normalized_def js_or_def Let_def)

theorem normalization_of_results_witness:
  "normalize_result_v1 (JObj [(''stdout'', JStr ''a''), (''stderr'', JStr ''b'')]) = ''a'' @ [CHR 0x0A] @ ''b'' \<and>
   normalize_message example_json (empty_message\<lparr>m_type := JStr ''result'', m_id := JNum 1, m_stdout := JStr ''a'', m_stderr := JStr ''b''\<rparr>) = ''a'' @ [CHR 0x0A] @ ''b'' \<and>
   normalize_result_v1 (JObj [(''code'', JNum 0)]) = ''[object Object]'' \<and>
   normalize_message example_json (empty_message\<lparr>m_type := JStr ''result'', m_id := JNum 1\<rparr>) = ''{}''"
  using normalization_of_results[of "[(''stdout'', JStr ''a''), (''stderr'', JStr ''b'')]" "''a''" "''b''"
      "empty_message\<lparr>m_type := JStr ''result'', m_id := JNum 1, m_stdout := JStr ''a'', m_stderr := JStr ''b''\<rparr>" example_json]
    normalization_of_results[of "[(''code'', JNum 0)]" "''a''" "''b''"
      "empty_message\<lparr>m_type := JStr ''result'', m_id := JNum 1\<rparr>" example_json]
  by (simp add: empty_message_def spec_normalized_def trim_def js_white_space_def example_json_def)

text \<open>
  Claim C8. For a text result without a tag-like substring the rendered form must
  have each \<open>&\<close>, \<open><\<close>, \<open>>\<close> escaped exactly once, never twice. In the first version it
  has them escaped twice. \<open>renderOutput\<close> gives \<open>escapeHtml(output)\<close> to the \<open>pre\<close> element
  as a string child (line 189), and a string child is put into the page as text,
  escaped by the page itself. With the engine's result \<open>1 < 2\<close> the output is \<open>1 < 2\<close>,
  it does not look like markup, and the child of the \<open>pre\<close> is \<open>1 &lt; 2\<close>: that is what
  the reader sees, entity and all, and the markup of the page is \<open>1 &amp;lt; 2\<close>,
  where escaping once gives \<open>1 &lt; 2\<close>.
\<close>

theorem plain_text_escaped_twice:
  "output_v1 (run_v1 example_props (initial_v1 example_props)
      [ClickRun1, LoadSettled1 1 (Loaded example_engine), ClickRun1,
       EngineSettled1 2 (Returned (JStr ''1 < 2''))]) = ''1 < 2'' \<and>
   error_v1 (run_v1 example_props (initial_v1 example_props)
      [ClickRun1, LoadSettled1 1 (Loaded example_engine), ClickRun1,
       EngineSettled1 2 (Returned (JStr ''1 < 2''))]) = None \<and>
   looksLikeHTML ''1 < 2'' = False \<and>
   concat (map escape_char ''1 < 2'') = ''1 &lt; 2'' \<and>
   renderOutput (run_v1 example_props (initial_v1 example_props)
      [ClickRun1, LoadSettled1 1 (Loaded example_engine), ClickRun1,
       EngineSettled1 2 (Returned (JStr ''1 < 2''))]) = RenderPre ''1 &lt; 2'' \<and>
   shown_text (renderOutput (run_v1 example_props (initial_v1 example_props)
      [ClickRun1, LoadSettled1 1 (Loaded example_engine), ClickRun1,
       EngineSettled1 2 (Returned (JStr ''1 < 2''))])) = Some ''1 &lt; 2'' \<and>
   shown_markup (renderOutput (run_v1 example_props (initial_v1 example_props)
      [ClickRun1, LoadSettled1 1 (Loaded example_engine), ClickRun1,
       EngineSettled1 2 (Returned (JStr ''1 < 2''))])) = Some ''1 &amp;lt; 2''"
  by (simp add: common_eval v1_eval renderOutput_def looksLikeHTML_def escapeHtml_def
      replace_all_def escape_char_def is_letter_def)


section \<open>Claims: reset and the first run without an engine\<close>




text \<open>
  Claim C10. In the first version, when \<open>runCode\<close> is invoked with no engine it sets
  the running flag, empties the output and waits for \<open>loadRuntime\<close> (which returns at
  once if a load is already under way). When the load comes back the invocation
  clears the running flag and returns: the handle it tests again is the one it
  captured. It never calls the engine, whatever happens later; it leaves the output
  empty; and when the load succeeded it sets no error and the engine is stored for
  the next invocation. When the factory gave no engine there is neither an engine
  nor an error. When the load failed the error is the load failure.
\<close>

theorem runCode_without_engine:
  "php_v1 s = None \<and> wf_v1 s \<longrightarrow>
     (let k = Suc (calls_v1 s); s1 = runCode_v1 s in
        output_v1 s1 = [] \<and> error_v1 s1 = None \<and> effects_v1 s1 = effects_v1 s \<and>
        isRunning_v1 s1 = (\<not> isLoadingRuntime_v1 s) \<and>
        phase_v1 s1 k = Some (if isLoadingRuntime_v1 s then Finished else AwaitLoad) \<and>
        (\<not> isLoadingRuntime_v1 s \<longrightarrow>
           (\<forall>loaded. let s2 = load_settled_v1 k loaded s1 in
              \<not> isRunning_v1 s2 \<and> \<not> isLoadingRuntime_v1 s2 \<and> output_v1 s2 = [] \<and>
              effects_v1 s2 = effects_v1 s \<and> phase_v1 s2 k = Some Finished \<and>
              (case loaded of
                 Loaded e \<Rightarrow> php_v1 s2 = Some e \<and> error_v1 s2 = None
               | LoadedNothing \<Rightarrow> php_v1 s2 = None \<and> error_v1 s2 = None
               | LoadFailed \<Rightarrow> php_v1 s2 = None \<and> error_v1 s2 = Some load_failed_message))) \<and>
        (\<forall>p evs. \<not> engine_called_v1 (run_v1 p s1 evs) k))"
proof (intro impI)
  assume a: "php_v1 s = None \<and> wf_v1 s"
  then have php: "php_v1 s = None" and wf: "wf_v1 s" by simp_all
  note r = runCode_no_engine[OF php wf]
  have never: "\<forall>p evs. \<not> engine_called_v1 (run_v1 p (runCode_v1 s) evs) (Suc (calls_v1 s))"
    using never_called_run[OF r(1)] by (simp add: never_called_v1_def)
  have load: "\<not> isLoadingRuntime_v1 s \<longrightarrow>
           (\<forall>loaded. let s2 = load_settled_v1 (Suc (calls_v1 s)) loaded (runCode_v1 s) in
              \<not> isRunning_v1 s2 \<and> \<not> isLoadingRuntime_v1 s2 \<and> output_v1 s2 = [] \<and>
              effects_v1 s2 = effects_v1 s \<and> phase_v1 s2 (Suc (calls_v1 s)) = Some Finished \<and>
              (case loaded of
                 Loaded e \<Rightarrow> php_v1 s2 = Some e \<and> error_v1 s2 = None
               | LoadedNothing \<Rightarrow> php_v1 s2 = None \<and> error_v1 s2 = None
               | LoadFailed \<Rightarrow> php_v1 s2 = None \<and> error_v1 s2 = Some load_failed_message))"
  proof (intro impI allI)
    fix loaded
    assume nl: "\<not> isLoadingRuntime_v1 s"
    with r(6) have ph: "phase_v1 (runCode_v1 s) (Suc (calls_v1 s)) = Some AwaitLoad" by simp
    have p1: "php_v1 (runCode_v1 s) = None" using php nl by (simp add: runCode_v1_def Let_def)
    note l = load_settled_awaiting[OF ph, of loaded]
    show "let s2 = load_settled_v1 (Suc (calls_v1 s)) loaded (runCode_v1 s) in
              \<not> isRunning_v1 s2 \<and> \<not> isLoadingRuntime_v1 s2 \<and> output_v1 s2 = [] \<and>
              effects_v1 s2 = effects_v1 s \<and> phase_v1 s2 (Suc (calls_v1 s)) = Some Finished \<and>
              (case loaded of
                 Loaded e \<Rightarrow> php_v1 s2 = Some e \<and> error_v1 s2 = None
               | LoadedNothing \<Rightarrow> php_v1 s2 = None \<and> error_v1 s2 = None
               | LoadFailed \<Rightarrow> php_v1 s2 = None \<and> error_v1 s2 = Some load_failed_message)"
      using l r(2,3,4) p1 by (cases loaded) (simp_all add: Let_def)
  qed
  show "let k = Suc (calls_v1 s); s1 = runCode_v1 s in
        output_v1 s1 = [] \<and> error_v1 s1 = None \<and> effects_v1 s1 = effects_v1 s \<and>
        isRunning_v1 s1 = (\<not> isLoadingRuntime_v1 s) \<and>
        phase_v1 s1 k = Some (if isLoadingRuntime_v1 s then Finished else AwaitLoad) \<and>
        (\<not> isLoadingRuntime_v1 s \<longrightarrow>
           (\<forall>loaded. let s2 = load_settled_v1 k loaded s1 in
              \<not> isRunning_v1 s2 \<and> \<not> isLoadingRuntime_v1 s2 \<and> output_v1 s2 = [] \<and>
              effects_v1 s2 = effects_v1 s \<and> phase_v1 s2 k = Some Finished \<and>
              (case loaded of
                 Loaded e \<Rightarrow> php_v1 s2 = Some e \<and> error_v1 s2 = None
               | LoadedNothing \<Rightarrow> php_v1 s2 = None \<and> error_v1 s2 = None
               | LoadFailed \<Rightarrow> php_v1 s2 = None \<and> error_v1 s2 = Some load_failed_message))) \<and>
        (\<forall>p evs. \<not> engine_called_v1 (run_v1 p s1 evs) k)"
    unfolding Let_def using r(2,3,4,5,6) load[unfolded Let_def] never by blast
qed

theorem runCode_without_engine_witness:
  "php_v1 (initial_v1 example_props) = None \<and> wf_v1 (initial_v1 example_props) \<and>
   isRunning_v1 (runCode_v1 (initial_v1 example_props)) \<and>
   \<not> isRunning_v1 (load_settled_v1 1 (Loaded example_engine) (runCode_v1 (initial_v1 example_props))) \<and>
   output_v1 (load_settled_v1 1 (Loaded example_engine) (runCode_v1 (initial_v1 example_props))) = [] \<and>
   error_v1 (load_settled_v1 1 (Loaded example_engine) (runCode_v1 (initial_v1 example_props))) = None \<and>
   effects_v1 (load_settled_v1 1 (Loaded example_engine) (runCode_v1 (initial_v1 example_props))) = [] \<and>
   \<not> engine_called_v1
       (run_v1 example_props (runCode_v1 (initial_v1 example_props))
          [LoadSettled1 1 (Loaded example_engine), EngineSettled1 1 (Returned (JStr ''1'')), TimerFired1 1]) 1"
  using runCode_without_engine[of "initial_v1 example_props"]
  by (simp add: initial_v1_def wf_v1_def Let_def runCode_v1_def load_settled_v1_def
      engine_settled_v1_def timer_fired_v1_def run_v1_def engine_called_v1_def)

section \<open>Claims: the run supervisor\<close>

text \<open>
  Claim C1. A message that carries the identifier of run N and arrives after run N+1
  has started must change neither the output, the error nor the status. In the
  third version it does. \<open>handleWorkerMessage\<close> takes a message when its identifier is a
  key of the pending map, and \<open>resetCode\<close> sets the status to \<open>idle\<close>, which enables the
  Run button, without removing the entry of the run under way or clearing its timer,
  as \<open>stopExecution\<close> and the timer do. After Run, Reset, Run the runs 1 and 2 are both
  pending, the status is \<open>running\<close> and the output is empty; the result of run 1 then
  sets the output to its text and the status to \<open>idle\<close> while run 2 is under way.
\<close>

theorem reset_leaves_run_pending_v3:
  "status_v3 (run_v3 example_props example_json (initial_v3 example_props)
      [Mount3, WorkerMessage3 1 ready_message, ClickRun3, ClickReset3, ClickRun3]) = Running \<and>
   output_v3 (run_v3 example_props example_json (initial_v3 example_props)
      [Mount3, WorkerMessage3 1 ready_message, ClickRun3, ClickReset3, ClickRun3]) = [] \<and>
   runIdRef_v3 (run_v3 example_props example_json (initial_v3 example_props)
      [Mount3, WorkerMessage3 1 ready_message, ClickRun3, ClickReset3, ClickRun3]) = 2 \<and>
   pending_v3 (run_v3 example_props example_json (initial_v3 example_props)
      [Mount3, WorkerMessage3 1 ready_message, ClickRun3, ClickReset3, ClickRun3]) = [1, 2] \<and>
   status_v3 (run_v3 example_props example_json (initial_v3 example_props)
      [Mount3, WorkerMessage3 1 ready_message, ClickRun3, ClickReset3, ClickRun3,
       WorkerMessage3 1 (run_reply_v3 1 (Returned (JStr ''late'')))]) = Idle \<and>
   output_v3 (run_v3 example_props example_json (initial_v3 example_props)
      [Mount3, WorkerMessage3 1 ready_message, ClickRun3, ClickReset3, ClickRun3,
       WorkerMessage3 1 (run_reply_v3 1 (Returned (JStr ''late'')))]) = ''late'' \<and>
   pending_v3 (run_v3 example_props example_json (initial_v3 example_props)
      [Mount3, WorkerMessage3 1 ready_message, ClickRun3, ClickReset3, ClickRun3,
       WorkerMessage3 1 (run_reply_v3 1 (Returned (JStr ''late'')))]) = [2]"
  by (simp add: common_eval v3_eval)

text \<open>
  Claim C2. When the timer of a run fires before the executor has settled it, the
  status becomes \<open>timeout\<close>, the last error and the output show a timeout message, and
  a result that arrives later from that run changes nothing visible: in the third
  version its identifier is no longer pending and never will be again, in the second
  the promise of the run is settled (and its worker terminated). Both hold after any
  further events, later runs included.
\<close>

theorem timeout_discards_late_result:
  "(wf_v3 s \<and> n \<in> set (timers_v3 s) \<longrightarrow>
      (let s' = step_v3 p js s (TimerFired3 n) in
         status_v3 s' = Timeout \<and>
         lastError_v3 s' = JStr (timeout_message_v3 (p_timeoutMs p)) \<and>
         output_v3 s' = ''[Error] Execution timeout'' \<and>
         (\<forall>evs w msg. run_id msg = JNum n \<and> \<not> is_ready_message msg \<longrightarrow>
            step_v3 p js (run_v3 p js s' evs) (WorkerMessage3 w msg) = run_v3 p js s' evs))) \<and>
   (waiting_v2 t k \<longrightarrow>
      (let t' = step_v2 p t (TimerFired2 k) in
         status_v2 t' = Timeout \<and>
         lastError_v2 t' = JStr (timeout_message_v2 (p_timeoutMs p)) \<and>
         output_v2 t' = ''[Error] '' @ timeout_message_v2 (p_timeoutMs p) \<and>
         (\<forall>evs msg.
            visible_v2 (onmessage_v2 k msg (run_v2 p t' evs)) = visible_v2 (run_v2 p t' evs) \<and>
            visible_v2 (step_v2 p (run_v2 p t' evs) (WorkerMessage2 k msg)) =
              visible_v2 (run_v2 p t' evs))))"
proof -
  have a: "wf_v3 s \<and> n \<in> set (timers_v3 s) \<longrightarrow>
      (let s' = step_v3 p js s (TimerFired3 n) in
         status_v3 s' = Timeout \<and>
         lastError_v3 s' = JStr (timeout_message_v3 (p_timeoutMs p)) \<and>
         output_v3 s' = ''[Error] Execution timeout'' \<and>
         (\<forall>evs w msg. run_id msg = JNum n \<and> \<not> is_ready_message msg \<longrightarrow>
            step_v3 p js (run_v3 p js s' evs) (WorkerMessage3 w msg) = run_v3 p js s' evs))"
  proof
    assume h: "wf_v3 s \<and> n \<in> set (timers_v3 s)"
    then have wf: "wf_v3 s" and n: "n \<in> set (timers_v3 s)" by simp_all
    note f = timer_fires_v3[OF wf n, of p js]
    have "\<forall>evs w msg. run_id msg = JNum n \<and> \<not> is_ready_message msg \<longrightarrow>
            step_v3 p js (run_v3 p js (step_v3 p js s (TimerFired3 n)) evs) (WorkerMessage3 w msg) =
            run_v3 p js (step_v3 p js s (TimerFired3 n)) evs"
      using stale_message_ignored[OF f(4)] by blast
    with f(1,2,3) show "let s' = step_v3 p js s (TimerFired3 n) in
         status_v3 s' = Timeout \<and>
         lastError_v3 s' = JStr (timeout_message_v3 (p_timeoutMs p)) \<and>
         output_v3 s' = ''[Error] Execution timeout'' \<and>
         (\<forall>evs w msg. run_id msg = JNum n \<and> \<not> is_ready_message msg \<longrightarrow>
            step_v3 p js (run_v3 p js s' evs) (WorkerMessage3 w msg) = run_v3 p js s' evs)"
      unfolding Let_def by blast
  qed
  have b: "waiting_v2 t k \<longrightarrow>
      (let t' = step_v2 p t (TimerFired2 k) in
         status_v2 t' = Timeout \<and>
         lastError_v2 t' = JStr (timeout_message_v2 (p_timeoutMs p)) \<and>
         output_v2 t' = ''[Error] '' @ timeout_message_v2 (p_timeoutMs p) \<and>
         (\<forall>evs msg.
            visible_v2 (onmessage_v2 k msg (run_v2 p t' evs)) = visible_v2 (run_v2 p t' evs) \<and>
            visible_v2 (step_v2 p (run_v2 p t' evs) (WorkerMessage2 k msg)) =
              visible_v2 (run_v2 p t' evs)))"
  proof
    assume h: "waiting_v2 t k"
    note f = timer_fires_v2[OF h, of p]
    have "\<forall>evs msg.
            visible_v2 (onmessage_v2 k msg (run_v2 p (step_v2 p t (TimerFired2 k)) evs)) =
              visible_v2 (run_v2 p (step_v2 p t (TimerFired2 k)) evs) \<and>
            visible_v2 (step_v2 p (run_v2 p (step_v2 p t (TimerFired2 k)) evs) (WorkerMessage2 k msg)) =
              visible_v2 (run_v2 p (step_v2 p t (TimerFired2 k)) evs)"
    proof (intro allI)
      fix evs msg
      have "done_v2 (run_v2 p (step_v2 p t (TimerFired2 k)) evs) k" using f(4) by (rule done_run)
      then have "settled_v2 (run_v2 p (step_v2 p t (TimerFired2 k)) evs) k" by (simp add: done_v2_def)
      then have "visible_v2 (onmessage_v2 k msg (run_v2 p (step_v2 p t (TimerFired2 k)) evs)) =
              visible_v2 (run_v2 p (step_v2 p t (TimerFired2 k)) evs)"
        by (rule onmessage_settled)
      then show "visible_v2 (onmessage_v2 k msg (run_v2 p (step_v2 p t (TimerFired2 k)) evs)) =
              visible_v2 (run_v2 p (step_v2 p t (TimerFired2 k)) evs) \<and>
            visible_v2 (step_v2 p (run_v2 p (step_v2 p t (TimerFired2 k)) evs) (WorkerMessage2 k msg)) =
              visible_v2 (run_v2 p (step_v2 p t (TimerFired2 k)) evs)"
        by simp
    qed
    with f(1,2,3) show "let t' = step_v2 p t (TimerFired2 k) in
         status_v2 t' = Timeout \<and>
         lastError_v2 t' = JStr (timeout_message_v2 (p_timeoutMs p)) \<and>
         output_v2 t' = ''[Error] '' @ timeout_message_v2 (p_timeoutMs p) \<and>
         (\<forall>evs msg.
            visible_v2 (onmessage_v2 k msg (run_v2 p t' evs)) = visible_v2 (run_v2 p t' evs) \<and>
            visible_v2 (step_v2 p (run_v2 p t' evs) (WorkerMessage2 k msg)) =
              visible_v2 (run_v2 p t' evs))"
      unfolding Let_def by blast
  qed
  from a b show ?thesis by blast
qed

theorem timeout_discards_late_result_witness:
  "wf_v3 (run_v3 example_props example_json (initial_v3 example_props)
      [Mount3, WorkerMessage3 1 ready_message, ClickRun3]) \<and>
   1 \<in> set (timers_v3 (run_v3 example_props example_json (initial_v3 example_props)
      [Mount3, WorkerMessage3 1 ready_message, ClickRun3])) \<and>
   visible_v3 (run_v3 example_props example_json (initial_v3 example_props)
      [Mount3, WorkerMessage3 1 ready_message, ClickRun3, TimerFired3 1]) =
     (''[Error] Execution timeout'', False, Timeout, JStr ''Execution timeout after 8000 ms'') \<and>
   run_v3 example_props example_json (initial_v3 example_props)
      [Mount3, WorkerMessage3 1 ready_message, ClickRun3, TimerFired3 1, ClickRun3,
       WorkerMessage3 1 (run_reply_v3 1 (Returned (JStr ''late'')))] =
   run_v3 example_props example_json (initial_v3 example_props)
      [Mount3, WorkerMessage3 1 ready_message, ClickRun3, TimerFired3 1, ClickRun3] \<and>
   waiting_v2 (run_v2 example_props (initial_v2 example_props) [Mount2, ClickRun2]) 1 \<and>
   status_v2 (run_v2 example_props (initial_v2 example_props) [Mount2, ClickRun2, TimerFired2 1]) =
     Timeout \<and>
   output_v2 (run_v2 example_props (initial_v2 example_props) [Mount2, ClickRun2, TimerFired2 1]) =
     ''[Error] Client-side timeout after 8000 ms'' \<and>
   visible_v2 (onmessage_v2 1
        (empty_message\<lparr>m_type := JStr ''result'', m_id := JNum 1, m_result := JStr ''late''\<rparr>)
        (run_v2 example_props (initial_v2 example_props) [Mount2, ClickRun2, TimerFired2 1, ClickRun2])) =
     visible_v2 (run_v2 example_props (initial_v2 example_props)
        [Mount2, ClickRun2, TimerFired2 1, ClickRun2])"
proof -
  let ?s = "run_v3 example_props example_json (initial_v3 example_props)
      [Mount3, WorkerMessage3 1 ready_message, ClickRun3]"
  let ?msg = "run_reply_v3 1 (Returned (JStr ''late''))"
  let ?t = "run_v2 example_props (initial_v2 example_props) [Mount2, ClickRun2]"
  let ?m2 = "empty_message\<lparr>m_type := JStr ''result'', m_id := JNum 1, m_result := JStr ''late''\<rparr>"
  have h1: "wf_v3 ?s" "1 \<in> set (timers_v3 ?s)" by (simp_all add: common_eval v3_eval wf_v3_def)
  have h2: "run_id ?msg = JNum 1 \<and> \<not> is_ready_message ?msg"
    by (simp add: run_id_def is_ready_message_def run_reply_v3_def empty_message_def js_or_def)
  have h3: "waiting_v2 ?t 1" by (simp add: common_eval v2_eval waiting_v2_def)
  have m: "timeout_message_v3 (p_timeoutMs example_props) = ''Execution timeout after 8000 ms''"
    "timeout_message_v2 (p_timeoutMs example_props) = ''Client-side timeout after 8000 ms''"
    by (simp_all add: timeout_message_v3_def timeout_message_v2_def example_props_def
        string_of_nat.simps digit_char_def)
  note T = timeout_discards_late_result[where s = ?s and n = 1 and p = example_props
      and js = example_json and t = ?t and k = 1, unfolded Let_def]
  from T h1 have a:
    "status_v3 (step_v3 example_props example_json ?s (TimerFired3 1)) = Timeout"
    "lastError_v3 (step_v3 example_props example_json ?s (TimerFired3 1)) =
       JStr (timeout_message_v3 (p_timeoutMs example_props))"
    "output_v3 (step_v3 example_props example_json ?s (TimerFired3 1)) = ''[Error] Execution timeout''"
    "\<forall>evs w msg. run_id msg = JNum 1 \<and> \<not> is_ready_message msg \<longrightarrow>
       step_v3 example_props example_json
         (run_v3 example_props example_json (step_v3 example_props example_json ?s (TimerFired3 1)) evs)
         (WorkerMessage3 w msg) =
       run_v3 example_props example_json (step_v3 example_props example_json ?s (TimerFired3 1)) evs"
    by blast+
  from T h3 have b:
    "status_v2 (step_v2 example_props ?t (TimerFired2 1)) = Timeout"
    "output_v2 (step_v2 example_props ?t (TimerFired2 1)) =
       ''[Error] '' @ timeout_message_v2 (p_timeoutMs example_props)"
    "\<forall>evs msg. visible_v2 (onmessage_v2 1 msg
         (run_v2 example_props (step_v2 example_props ?t (TimerFired2 1)) evs)) =
       visible_v2 (run_v2 example_props (step_v2 example_props ?t (TimerFired2 1)) evs)"
    by blast+
  let ?s4 = "run_v3 example_props example_json (initial_v3 example_props)
      [Mount3, WorkerMessage3 1 ready_message, ClickRun3, TimerFired3 1]"
  have html: "isHtmlOutput_v3 ?s4 = False" by (simp add: common_eval v3_eval)
  from a(1,2,3) have a':
    "status_v3 ?s4 = Timeout"
    "lastError_v3 ?s4 = JStr ''Execution timeout after 8000 ms''"
    "output_v3 ?s4 = ''[Error] Execution timeout''"
    by (simp_all only: run_v3_snoc append.simps m(1))
  have c1: "visible_v3 ?s4 =
     (''[Error] Execution timeout'', False, Timeout, JStr ''Execution timeout after 8000 ms'')"
    using a' html by (simp only: visible_v3_def)
  have c2: "run_v3 example_props example_json (initial_v3 example_props)
      [Mount3, WorkerMessage3 1 ready_message, ClickRun3, TimerFired3 1, ClickRun3, WorkerMessage3 1 ?msg] =
   run_v3 example_props example_json (initial_v3 example_props)
      [Mount3, WorkerMessage3 1 ready_message, ClickRun3, TimerFired3 1, ClickRun3]"
  proof -
    have "step_v3 example_props example_json
         (run_v3 example_props example_json (step_v3 example_props example_json ?s (TimerFired3 1)) [ClickRun3])
         (WorkerMessage3 1 ?msg) =
       run_v3 example_props example_json (step_v3 example_props example_json ?s (TimerFired3 1)) [ClickRun3]"
      using a(4) h2 by blast
    then show ?thesis by (simp only: run_v3_snoc run_v3_run append.simps)
  qed
  have c3: "status_v2 (run_v2 example_props (initial_v2 example_props) [Mount2, ClickRun2, TimerFired2 1]) =
     Timeout"
    using b(1) by (simp only: run_v2_snoc append.simps)
  have c4: "output_v2 (run_v2 example_props (initial_v2 example_props) [Mount2, ClickRun2, TimerFired2 1]) =
     ''[Error] Client-side timeout after 8000 ms''"
    using b(2) by (simp only: run_v2_snoc append.simps m(2))
  have c5: "visible_v2 (onmessage_v2 1 ?m2
        (run_v2 example_props (initial_v2 example_props) [Mount2, ClickRun2, TimerFired2 1, ClickRun2])) =
     visible_v2 (run_v2 example_props (initial_v2 example_props)
        [Mount2, ClickRun2, TimerFired2 1, ClickRun2])"
  proof -
    have "visible_v2 (onmessage_v2 1 ?m2
         (run_v2 example_props (step_v2 example_props ?t (TimerFired2 1)) [ClickRun2])) =
       visible_v2 (run_v2 example_props (step_v2 example_props ?t (TimerFired2 1)) [ClickRun2])"
      using b(3) by blast
    then show ?thesis by (simp only: run_v2_snoc run_v2_run append.simps)
  qed
  show ?thesis using h1 h3 c1 c2 c3 c4 c5 by blast
qed

text \<open>
  Claim C3. The specification has every request settle exactly once, by success,
  error, timeout or cancellation, with no later settlement overwriting the first. In
  the second version \<open>stopExecution\<close> shows the request as stopped but leaves its timer
  running and its \<open>finished\<close> flag unset; when the timer fires, the promise is rejected
  and the stopped request is shown as timed out.
\<close>

theorem stop_then_timeout_v2:
  "visible_v2 (run_v2 example_props (initial_v2 example_props) [Mount2, ClickRun2, ClickStop2]) =
     (''[Execution stopped]'', False, Stopped, JNull) \<and>
   visible_v2 (run_v2 example_props (initial_v2 example_props)
      [Mount2, ClickRun2, ClickStop2, TimerFired2 1]) =
     (''[Error] Client-side timeout after 8000 ms'', False, Timeout,
      JStr ''Client-side timeout after 8000 ms'')"
  by (simp add: common_eval v2_eval visible_v2_def timeout_message_v2_def
      string_of_nat.simps digit_char_def toLowerCase_def lower_char_def)

text \<open>
  Claim C4. The specification has a failed load settle the run at once with the load
  failure, from \<open>loading\<close> to \<open>error\<close>, with \<open>running\<close> never entered and no timer
  started. The second version loads the engine inside the worker, after \<open>runCode\<close> has
  set the status to \<open>running\<close> and started the timer. In the third version the worker's
  report that every source failed carries no identifier; the page does not act on it
  and the status stays \<open>loading\<close>.
\<close>

theorem load_failure_counterexample:
  "status_v2 (run_v2 example_props (initial_v2 example_props) [Mount2, ClickRun2]) = Running \<and>
   timer_armed_v2 (run_v2 example_props (initial_v2 example_props) [Mount2, ClickRun2]) 1 \<and>
   status_v2 (run_v2 example_props (initial_v2 example_props)
      [Mount2, ClickRun2,
       WorkerMessage2 1 (worker_reply_v2 ''TypeError'' (\<lambda>u. None :: unit option)
          [''/php-wasm/php-worker.mjs'', ''/php-wasm/php-worker.js''] 1 (Returned JNull))]) = Error \<and>
   status_v3 (run_v3 example_props example_json (initial_v3 example_props)
      [Mount3, ClickRun3, WorkerMessage3 2 (ping_reply_v3 (\<lambda>u. None :: unit option))]) = Loading"
  by (simp add: common_eval v3_eval v2_eval toLowerCase_def lower_char_def)

text \<open>
  Claim C4, as amended. Third version: when the worker is not ready, \<open>runCode\<close> sets
  the status to \<open>loading\<close> and waits for the worker; it issues no identifier, starts no
  execution timer, and adds nothing to the pending map or to the requests posted.
  When the wait ends in failure (the worker's error event, or the initialization
  timer), the status becomes \<open>error\<close> with that failure's message as last error and in
  the output, and still no identifier, execution timer, pending entry or request
  exists for the run. Second version: \<open>runCode\<close> sets the status to \<open>running\<close> and
  starts the timer before the worker loads the engine; when every source fails, the
  worker's error reply for the run sets the last error and the output to the load
  failure and the status to \<open>error\<close> (to \<open>timeout\<close> if the message contains that word).
\<close>

theorem load_failure_settles_as_error:
  "(\<not> (workerRef_v3 s \<noteq> None \<and> isWorkerReady_v3 s) \<longrightarrow>
      status_v3 (runCode_v3 s) = Loading \<and> same_runs_v3 s (runCode_v3 s) \<and>
      awaited_by_run (runCode_v3 s) (Suc (workers_v3 s))) \<and>
   (awaited_by_run t w \<longrightarrow>
      status_v3 (worker_onerror_v3 w m t) = Error \<and>
      lastError_v3 (worker_onerror_v3 w m t) = m \<and>
      output_v3 (worker_onerror_v3 w m t) = ''[Error] '' @ to_String m \<and>
      same_runs_v3 t (worker_onerror_v3 w m t) \<and>
      status_v3 (init_timeout_v3 w t) = Error \<and>
      lastError_v3 (init_timeout_v3 w t) = JStr ''Worker initialization timeout'' \<and>
      output_v3 (init_timeout_v3 w t) = ''[Error] Worker initialization timeout'' \<and>
      same_runs_v3 t (init_timeout_v3 w t)) \<and>
   (blobUrl_v2 u \<longrightarrow>
      status_v2 (runCode_v2 u) = Running \<and> waiting_v2 (runCode_v2 u) (Suc (runIdRef_v2 u))) \<and>
   (waiting_v2 u k \<and> load_with_fallback fetch tries = None \<longrightarrow>
      status_v2 (onmessage_v2 k (worker_reply_v2 te fetch tries k oc) u) =
        (if str_includes (toLowerCase (''Could not load php-wasm runtime from '' @ join_or tries)) ''timeout''
         then Timeout else Error) \<and>
      lastError_v2 (onmessage_v2 k (worker_reply_v2 te fetch tries k oc) u) =
        JStr (''Could not load php-wasm runtime from '' @ join_or tries) \<and>
      output_v2 (onmessage_v2 k (worker_reply_v2 te fetch tries k oc) u) =
        ''[Error] Could not load php-wasm runtime from '' @ join_or tries)"
proof -
  have a: "\<not> (workerRef_v3 s \<noteq> None \<and> isWorkerReady_v3 s) \<longrightarrow>
      status_v3 (runCode_v3 s) = Loading \<and> same_runs_v3 s (runCode_v3 s) \<and>
      awaited_by_run (runCode_v3 s) (Suc (workers_v3 s))"
    using runCode_v3_not_ready[of s] by (intro impI conjI)
  have b: "awaited_by_run t w \<longrightarrow>
      status_v3 (worker_onerror_v3 w m t) = Error \<and>
      lastError_v3 (worker_onerror_v3 w m t) = m \<and>
      output_v3 (worker_onerror_v3 w m t) = ''[Error] '' @ to_String m \<and>
      same_runs_v3 t (worker_onerror_v3 w m t) \<and>
      status_v3 (init_timeout_v3 w t) = Error \<and>
      lastError_v3 (init_timeout_v3 w t) = JStr ''Worker initialization timeout'' \<and>
      output_v3 (init_timeout_v3 w t) = ''[Error] Worker initialization timeout'' \<and>
      same_runs_v3 t (init_timeout_v3 w t)"
    using awaited_onerror[of t w m] awaited_timeout[of t w] by (intro impI conjI)
  have c: "blobUrl_v2 u \<longrightarrow>
      status_v2 (runCode_v2 u) = Running \<and> waiting_v2 (runCode_v2 u) (Suc (runIdRef_v2 u))"
    using runCode_v2_starts[of u] by (intro impI conjI)
  have d: "waiting_v2 u k \<and> load_with_fallback fetch tries = None \<longrightarrow>
      status_v2 (onmessage_v2 k (worker_reply_v2 te fetch tries k oc) u) =
        (if str_includes (toLowerCase (''Could not load php-wasm runtime from '' @ join_or tries)) ''timeout''
         then Timeout else Error) \<and>
      lastError_v2 (onmessage_v2 k (worker_reply_v2 te fetch tries k oc) u) =
        JStr (''Could not load php-wasm runtime from '' @ join_or tries) \<and>
      output_v2 (onmessage_v2 k (worker_reply_v2 te fetch tries k oc) u) =
        ''[Error] Could not load php-wasm runtime from '' @ join_or tries"
  proof
    assume h: "waiting_v2 u k \<and> load_with_fallback fetch tries = None"
    then have h1: "waiting_v2 u k" and h2: "load_with_fallback fetch tries = None" by simp_all
    note r = load_failure_reply_v2[OF h1 h2, of te oc]
    show "status_v2 (onmessage_v2 k (worker_reply_v2 te fetch tries k oc) u) =
        (if str_includes (toLowerCase (''Could not load php-wasm runtime from '' @ join_or tries)) ''timeout''
         then Timeout else Error) \<and>
      lastError_v2 (onmessage_v2 k (worker_reply_v2 te fetch tries k oc) u) =
        JStr (''Could not load php-wasm runtime from '' @ join_or tries) \<and>
      output_v2 (onmessage_v2 k (worker_reply_v2 te fetch tries k oc) u) =
        ''[Error] Could not load php-wasm runtime from '' @ join_or tries"
      by (rule conjI[OF r(1) conjI[OF r(2) r(3)]])
  qed
  show ?thesis by (rule conjI[OF a conjI[OF b conjI[OF c d]]])
qed

theorem load_failure_settles_as_error_witness:
  "\<not> (workerRef_v3 (mount_v3 (initial_v3 example_props)) \<noteq> None \<and>
       isWorkerReady_v3 (mount_v3 (initial_v3 example_props))) \<and>
   status_v3 (runCode_v3 (mount_v3 (initial_v3 example_props))) = Loading \<and>
   same_runs_v3 (initial_v3 example_props) (runCode_v3 (mount_v3 (initial_v3 example_props))) \<and>
   awaited_by_run (runCode_v3 (mount_v3 (initial_v3 example_props))) 2 \<and>
   status_v3 (init_timeout_v3 2 (runCode_v3 (mount_v3 (initial_v3 example_props)))) = Error \<and>
   output_v3 (init_timeout_v3 2 (runCode_v3 (mount_v3 (initial_v3 example_props)))) =
     ''[Error] Worker initialization timeout'' \<and>
   same_runs_v3 (initial_v3 example_props)
     (init_timeout_v3 2 (runCode_v3 (mount_v3 (initial_v3 example_props)))) \<and>
   blobUrl_v2 (step_v2 example_props (initial_v2 example_props) Mount2) \<and>
   status_v2 (runCode_v2 (step_v2 example_props (initial_v2 example_props) Mount2)) = Running \<and>
   waiting_v2 (runCode_v2 (step_v2 example_props (initial_v2 example_props) Mount2)) 1 \<and>
   output_v2 (onmessage_v2 1
      (worker_reply_v2 ''TypeError'' (\<lambda>u. None :: unit option)
         [''/php-wasm/php-worker.mjs'', ''/php-wasm/php-worker.js''] 1 (Returned JNull))
      (runCode_v2 (step_v2 example_props (initial_v2 example_props) Mount2))) =
     ''[Error] Could not load php-wasm runtime from /php-wasm/php-worker.mjs or /php-wasm/php-worker.js''"
proof -
  let ?s = "mount_v3 (initial_v3 example_props)"
  let ?u = "step_v2 example_props (initial_v2 example_props) Mount2"
  let ?tries = "[''/php-wasm/php-worker.mjs'', ''/php-wasm/php-worker.js'']"
  have h1: "\<not> (workerRef_v3 ?s \<noteq> None \<and> isWorkerReady_v3 ?s)"
    by (simp add: mount_v3_def initializeWorker_def start_worker_v3_def initial_v3_def Let_def)
  have w: "Suc (workers_v3 ?s) = 2"
    by (simp add: mount_v3_def initializeWorker_def start_worker_v3_def initial_v3_def Let_def)
  have sr: "same_runs_v3 (initial_v3 example_props) ?s"
    by (simp add: mount_v3_def initializeWorker_def start_worker_v3_def initial_v3_def Let_def
        same_runs_v3_def)
  have h2: "blobUrl_v2 ?u" by (simp add: initial_v2_def)
  have r: "Suc (runIdRef_v2 ?u) = 1" by (simp add: initial_v2_def)
  have h3: "load_with_fallback (\<lambda>u. None :: unit option) ?tries = None" by simp
  have j: "join_or ?tries = ''/php-wasm/php-worker.mjs or /php-wasm/php-worker.js''" by simp
  note T1 = load_failure_settles_as_error[where s = ?s and t = "runCode_v3 ?s" and w = 2 and u = ?u]
  from T1 h1 have a: "status_v3 (runCode_v3 ?s) = Loading" "same_runs_v3 ?s (runCode_v3 ?s)"
    "awaited_by_run (runCode_v3 ?s) (Suc (workers_v3 ?s))"
    by blast+
  from a(3) w have a3: "awaited_by_run (runCode_v3 ?s) 2" by simp
  from T1 a3 have b: "status_v3 (init_timeout_v3 2 (runCode_v3 ?s)) = Error"
    "output_v3 (init_timeout_v3 2 (runCode_v3 ?s)) = ''[Error] Worker initialization timeout''"
    "same_runs_v3 (runCode_v3 ?s) (init_timeout_v3 2 (runCode_v3 ?s))"
    by blast+
  from T1 h2 have c: "status_v2 (runCode_v2 ?u) = Running"
    "waiting_v2 (runCode_v2 ?u) (Suc (runIdRef_v2 ?u))"
    by blast+
  from c(2) r have c2: "waiting_v2 (runCode_v2 ?u) 1" by simp
  note T2 = load_failure_settles_as_error[where u = "runCode_v2 ?u" and k = 1
      and fetch = "\<lambda>u. None :: unit option" and tries = ?tries and te = "''TypeError''"
      and oc = "Returned JNull"]
  from T2 c2 h3 have d: "output_v2 (onmessage_v2 1
      (worker_reply_v2 ''TypeError'' (\<lambda>u. None :: unit option) ?tries 1 (Returned JNull))
      (runCode_v2 ?u)) = ''[Error] Could not load php-wasm runtime from '' @ join_or ?tries"
    by blast
  from d j have d': "output_v2 (onmessage_v2 1
      (worker_reply_v2 ''TypeError'' (\<lambda>u. None :: unit option) ?tries 1 (Returned JNull))
      (runCode_v2 ?u)) =
     ''[Error] Could not load php-wasm runtime from /php-wasm/php-worker.mjs or /php-wasm/php-worker.js''"
    by simp
  have sr1: "same_runs_v3 (initial_v3 example_props) (runCode_v3 ?s)"
    using same_runs_trans[OF sr a(2)] .
  have sr2: "same_runs_v3 (initial_v3 example_props) (init_timeout_v3 2 (runCode_v3 ?s))"
    using same_runs_trans[OF sr1 b(3)] .
  show ?thesis using h1 a(1) sr1 a3 b(1,2) sr2 h2 c(1) c2 d' by blast
qed

text \<open>
  Claim C5. The specification has stop cancel the request's timer and discard a late
  result. In the second version the timer of a stopped run stays armed and its
  promise unsettled: the timer fires during the next run and sets the status to
  \<open>timeout\<close>. In the first version the timer of a stopped invocation still fires and
  shows the timeout, and the next invocation resets the abort flag, so the late
  result of the stopped one is shown as output.
\<close>

theorem stop_leaves_timer_v2:
  "timer_armed_v2 (run_v2 example_props (initial_v2 example_props) [Mount2, ClickRun2, ClickStop2]) 1 \<and>
   \<not> settled_v2 (run_v2 example_props (initial_v2 example_props) [Mount2, ClickRun2, ClickStop2]) 1 \<and>
   status_v2 (run_v2 example_props (initial_v2 example_props)
      [Mount2, ClickRun2, ClickStop2, ClickRun2]) = Running \<and>
   status_v2 (run_v2 example_props (initial_v2 example_props)
      [Mount2, ClickRun2, ClickStop2, ClickRun2, TimerFired2 1]) = Timeout \<and>
   output_v1 (run_v1 example_props (initial_v1 example_props)
      [ClickRun1, LoadSettled1 1 (Loaded example_engine), ClickRun1, ClickStop1, TimerFired1 2]) =
     ''[Execution timed out]'' \<and>
   output_v1 (run_v1 example_props (initial_v1 example_props)
      [ClickRun1, LoadSettled1 1 (Loaded example_engine), ClickRun1, ClickStop1, ClickRun1,
       EngineSettled1 2 (Returned (JStr ''late''))]) = ''late''"
  by (simp add: common_eval v2_eval v1_eval settled_v2_def timeout_message_v2_def
      timeout_message_v1_def string_of_nat.simps digit_char_def toLowerCase_def lower_char_def)

section \<open>Further properties\<close>

text \<open>
  In the third version \<open>stopExecution\<close> does what the specification asks of stop:
  every pending request loses its timer and its entry, the status becomes \<open>stopped\<close>,
  the worker is left running, and a result that arrives later for one of those
  requests is ignored whatever has happened in between.
\<close>

theorem stop_v3_discards_pending:
  "status_v3 (stopExecution_v3 s) = Stopped \<and>
   output_v3 (stopExecution_v3 s) = ''[Execution stopped]'' \<and>
   pending_v3 (stopExecution_v3 s) = [] \<and>
   workerRef_v3 (stopExecution_v3 s) = workerRef_v3 s \<and>
   terminated_v3 (stopExecution_v3 s) = terminated_v3 s \<and>
   (n \<in> set (pending_v3 s) \<longrightarrow> n \<notin> set (timers_v3 (stopExecution_v3 s))) \<and>
   (wf_v3 s \<and> n \<in> set (pending_v3 s) \<and> run_id msg = JNum n \<and> \<not> is_ready_message msg \<longrightarrow>
      step_v3 p js (run_v3 p js (stopExecution_v3 s) evs) (WorkerMessage3 w msg) =
      run_v3 p js (stopExecution_v3 s) evs)"
proof -
  have "wf_v3 s \<and> n \<in> set (pending_v3 s) \<longrightarrow> stale_v3 (stopExecution_v3 s) n"
    by (auto simp: wf_v3_def stale_v3_def stopExecution_v3_def list_all_iff)
  then have "wf_v3 s \<and> n \<in> set (pending_v3 s) \<and> run_id msg = JNum n \<and> \<not> is_ready_message msg \<longrightarrow>
      step_v3 p js (run_v3 p js (stopExecution_v3 s) evs) (WorkerMessage3 w msg) =
      run_v3 p js (stopExecution_v3 s) evs"
    using stale_message_ignored by blast
  then show ?thesis using stop_v3 by blast
qed

theorem stop_v3_discards_pending_witness:
  "wf_v3 (run_v3 example_props example_json (initial_v3 example_props)
      [Mount3, WorkerMessage3 1 ready_message, ClickRun3]) \<and>
   pending_v3 (run_v3 example_props example_json (initial_v3 example_props)
      [Mount3, WorkerMessage3 1 ready_message, ClickRun3]) = [1] \<and>
   timers_v3 (run_v3 example_props example_json (initial_v3 example_props)
      [Mount3, WorkerMessage3 1 ready_message, ClickRun3, ClickStop3]) = [] \<and>
   visible_v3 (run_v3 example_props example_json (initial_v3 example_props)
      [Mount3, WorkerMessage3 1 ready_message, ClickRun3, ClickStop3,
       WorkerMessage3 1 (run_reply_v3 1 (Returned (JStr ''late'')))]) =
     (''[Execution stopped]'', False, Stopped, JNull)"
  using stop_v3_discards_pending[where s = "run_v3 example_props example_json (initial_v3 example_props)
        [Mount3, WorkerMessage3 1 ready_message, ClickRun3]" and n = 1
      and msg = "run_reply_v3 1 (Returned (JStr ''late''))" and p = example_props and js = example_json
      and evs = "[]" and w = 1]
  by (simp add: common_eval v3_eval wf_v3_def visible_v3_def run_id_def is_ready_message_def)

text \<open>
  The promise of a run settles at most once, and has settled once the run's timer has
  fired. Second version: a run starts unsettled with its timer armed; the timer
  settles it if nothing else has; once settled it stays settled, and no message,
  error or timer of that run changes the visible state. First version: an invocation
  with an engine waits for the race or has returned already (no runnable entry
  point); the engine's answer and the timer each end the race; after that neither
  changes the state.
\<close>

theorem race_settles_once:
  "(blobUrl_v2 u \<longrightarrow> waiting_v2 (runCode_v2 u) (Suc (runIdRef_v2 u))) \<and>
   (waiting_v2 t k \<longrightarrow> done_v2 (step_v2 p t (TimerFired2 k)) k) \<and>
   (done_v2 t k \<longrightarrow>
      done_v2 (run_v2 p t evs) k \<and>
      visible_v2 (onmessage_v2 k msg (run_v2 p t evs)) = visible_v2 (run_v2 p t evs) \<and>
      visible_v2 (onerror_v2 k m (run_v2 p t evs)) = visible_v2 (run_v2 p t evs) \<and>
      visible_v2 (timer_v2 p k (run_v2 p t evs)) = visible_v2 (run_v2 p t evs)) \<and>
   (php_v1 s \<noteq> None \<longrightarrow>
      racing_v1 (runCode_v1 s) (Suc (calls_v1 s)) \<or> finished_v1 (runCode_v1 s) (Suc (calls_v1 s))) \<and>
   (racing_v1 s j \<longrightarrow>
      finished_v1 (engine_settled_v1 j oc s) j \<and> finished_v1 (timer_fired_v1 ms j s) j) \<and>
   (finished_v1 s j \<longrightarrow>
      finished_v1 (run_v1 q s evs1) j \<and>
      engine_settled_v1 j oc (run_v1 q s evs1) = run_v1 q s evs1 \<and>
      timer_fired_v1 ms j (run_v1 q s evs1) = run_v1 q s evs1)"
proof -
  have a: "blobUrl_v2 u \<longrightarrow> waiting_v2 (runCode_v2 u) (Suc (runIdRef_v2 u))"
    using runCode_v2_starts(2) by blast
  have b: "waiting_v2 t k \<longrightarrow> done_v2 (step_v2 p t (TimerFired2 k)) k"
    using timer_fires_v2(4) by blast
  have c: "done_v2 t k \<longrightarrow>
      done_v2 (run_v2 p t evs) k \<and>
      visible_v2 (onmessage_v2 k msg (run_v2 p t evs)) = visible_v2 (run_v2 p t evs) \<and>
      visible_v2 (onerror_v2 k m (run_v2 p t evs)) = visible_v2 (run_v2 p t evs) \<and>
      visible_v2 (timer_v2 p k (run_v2 p t evs)) = visible_v2 (run_v2 p t evs)"
  proof
    assume "done_v2 t k"
    then have d: "done_v2 (run_v2 p t evs) k" by (rule done_run)
    then have "settled_v2 (run_v2 p t evs) k" by (simp add: done_v2_def)
    with d show "done_v2 (run_v2 p t evs) k \<and>
      visible_v2 (onmessage_v2 k msg (run_v2 p t evs)) = visible_v2 (run_v2 p t evs) \<and>
      visible_v2 (onerror_v2 k m (run_v2 p t evs)) = visible_v2 (run_v2 p t evs) \<and>
      visible_v2 (timer_v2 p k (run_v2 p t evs)) = visible_v2 (run_v2 p t evs)"
      by (simp add: onmessage_settled onerror_settled timer_settled)
  qed
  have d: "php_v1 s \<noteq> None \<longrightarrow>
      racing_v1 (runCode_v1 s) (Suc (calls_v1 s)) \<or> finished_v1 (runCode_v1 s) (Suc (calls_v1 s))"
    using runCode_v1_with_engine by blast
  have e: "racing_v1 s j \<longrightarrow>
      finished_v1 (engine_settled_v1 j oc s) j \<and> finished_v1 (timer_fired_v1 ms j s) j"
    using racing_settles by blast
  have f: "finished_v1 s j \<longrightarrow>
      finished_v1 (run_v1 q s evs1) j \<and>
      engine_settled_v1 j oc (run_v1 q s evs1) = run_v1 q s evs1 \<and>
      timer_fired_v1 ms j (run_v1 q s evs1) = run_v1 q s evs1"
    using finished_run finished_events_idle by blast
  from a b c d e f show ?thesis by blast
qed

theorem race_settles_once_witness:
  "blobUrl_v2 (run_v2 example_props (initial_v2 example_props) [Mount2]) \<and>
   waiting_v2 (run_v2 example_props (initial_v2 example_props) [Mount2, ClickRun2]) 1 \<and>
   done_v2 (run_v2 example_props (initial_v2 example_props) [Mount2, ClickRun2, TimerFired2 1]) 1 \<and>
   visible_v2 (onerror_v2 1 (JStr ''x'')
      (run_v2 example_props (initial_v2 example_props) [Mount2, ClickRun2, TimerFired2 1, ClickRun2])) =
     visible_v2 (run_v2 example_props (initial_v2 example_props)
      [Mount2, ClickRun2, TimerFired2 1, ClickRun2]) \<and>
   php_v1 (run_v1 example_props (initial_v1 example_props)
      [ClickRun1, LoadSettled1 1 (Loaded example_engine)]) \<noteq> None \<and>
   racing_v1 (run_v1 example_props (initial_v1 example_props)
      [ClickRun1, LoadSettled1 1 (Loaded example_engine), ClickRun1]) 2 \<and>
   finished_v1 (run_v1 example_props (initial_v1 example_props)
      [ClickRun1, LoadSettled1 1 (Loaded example_engine), ClickRun1,
       EngineSettled1 2 (Returned (JStr ''1''))]) 2 \<and>
   run_v1 example_props (initial_v1 example_props)
      [ClickRun1, LoadSettled1 1 (Loaded example_engine), ClickRun1,
       EngineSettled1 2 (Returned (JStr ''1'')), ClickClear1, TimerFired1 2] =
   run_v1 example_props (initial_v1 example_props)
      [ClickRun1, LoadSettled1 1 (Loaded example_engine), ClickRun1,
       EngineSettled1 2 (Returned (JStr ''1'')), ClickClear1]"
proof -
  let ?u = "run_v2 example_props (initial_v2 example_props) [Mount2]"
  let ?t = "run_v2 example_props (initial_v2 example_props) [Mount2, ClickRun2]"
  let ?s = "run_v1 example_props (initial_v1 example_props)
      [ClickRun1, LoadSettled1 1 (Loaded example_engine)]"
  let ?r = "run_v1 example_props (initial_v1 example_props)
      [ClickRun1, LoadSettled1 1 (Loaded example_engine), ClickRun1]"
  have h1: "blobUrl_v2 ?u" by (simp add: run_v2_def initial_v2_def)
  have h2: "waiting_v2 ?t 1" by (simp add: common_eval v2_eval waiting_v2_def)
  have h3: "php_v1 ?s \<noteq> None" by (simp add: common_eval v1_eval)
  have h4: "racing_v1 ?r 2" by (simp add: common_eval v1_eval racing_v1_def)
  from race_settles_once[where t = ?t and k = 1 and p = example_props] h2
  have a: "done_v2 (step_v2 example_props ?t (TimerFired2 1)) 1" by blast
  then have a': "done_v2 (run_v2 example_props (initial_v2 example_props)
      [Mount2, ClickRun2, TimerFired2 1]) 1"
    by (simp only: run_v2_snoc append.simps)
  from race_settles_once[where t = "run_v2 example_props (initial_v2 example_props)
        [Mount2, ClickRun2, TimerFired2 1]" and k = 1 and p = example_props and evs = "[ClickRun2]"
      and m = "JStr ''x''"] a'
  have b: "visible_v2 (onerror_v2 1 (JStr ''x'')
      (run_v2 example_props (run_v2 example_props (initial_v2 example_props)
        [Mount2, ClickRun2, TimerFired2 1]) [ClickRun2])) =
     visible_v2 (run_v2 example_props (run_v2 example_props (initial_v2 example_props)
        [Mount2, ClickRun2, TimerFired2 1]) [ClickRun2])"
    by blast
  then have b': "visible_v2 (onerror_v2 1 (JStr ''x'')
      (run_v2 example_props (initial_v2 example_props) [Mount2, ClickRun2, TimerFired2 1, ClickRun2])) =
     visible_v2 (run_v2 example_props (initial_v2 example_props)
      [Mount2, ClickRun2, TimerFired2 1, ClickRun2])"
    by (simp only: run_v2_run append.simps)
  from race_settles_once[where s = ?r and j = 2 and oc = "Returned (JStr ''1'')"] h4
  have c: "finished_v1 (engine_settled_v1 2 (Returned (JStr ''1'')) ?r) 2" by blast
  have st: "step_v1 example_props ?r (EngineSettled1 2 (Returned (JStr ''1''))) =
            engine_settled_v1 2 (Returned (JStr ''1'')) ?r"
    by simp
  from c have c': "finished_v1 (run_v1 example_props (initial_v1 example_props)
      [ClickRun1, LoadSettled1 1 (Loaded example_engine), ClickRun1,
       EngineSettled1 2 (Returned (JStr ''1''))]) 2"
    by (simp only: st[symmetric] run_v1_snoc append.simps)
  from race_settles_once[where s = "run_v1 example_props (initial_v1 example_props)
      [ClickRun1, LoadSettled1 1 (Loaded example_engine), ClickRun1,
       EngineSettled1 2 (Returned (JStr ''1''))]" and j = 2 and q = example_props
      and ?evs1.0 = "[ClickClear1]" and ms = 8000] c'
  have d: "timer_fired_v1 8000 2 (run_v1 example_props (run_v1 example_props (initial_v1 example_props)
      [ClickRun1, LoadSettled1 1 (Loaded example_engine), ClickRun1,
       EngineSettled1 2 (Returned (JStr ''1''))]) [ClickClear1]) =
     run_v1 example_props (run_v1 example_props (initial_v1 example_props)
      [ClickRun1, LoadSettled1 1 (Loaded example_engine), ClickRun1,
       EngineSettled1 2 (Returned (JStr ''1''))]) [ClickClear1]"
    by blast
  have st2: "\<And>x. step_v1 example_props x (TimerFired1 2) = timer_fired_v1 8000 2 x" by simp
  from d have d': "run_v1 example_props (initial_v1 example_props)
      [ClickRun1, LoadSettled1 1 (Loaded example_engine), ClickRun1,
       EngineSettled1 2 (Returned (JStr ''1'')), ClickClear1, TimerFired1 2] =
   run_v1 example_props (initial_v1 example_props)
      [ClickRun1, LoadSettled1 1 (Loaded example_engine), ClickRun1,
       EngineSettled1 2 (Returned (JStr ''1'')), ClickClear1]"
    by (simp only: st2[symmetric] run_v1_snoc run_v1_run append.simps)
  show ?thesis using h1 h2 a' b' h3 h4 c' d' by blast
qed
text \<open>
  Messages that carry a stale or unknown identifier. Third version: a message whose
  identifier is missing, zero or not a key of the pending map is ignored; a result
  or an error for a pending run removes the run from the map; and once an identifier
  that was issued is no longer pending, a message that carries it is ignored
  whatever has happened in between, later runs included. Second version: the handler
  of a run ignores a message that carries an identifier other than its own; a result
  or an error for a waiting run settles its promise; and once the promise of a run
  is settled, no message to its handler changes the visible output, error or status,
  whatever has happened in between.
\<close>

theorem stale_messages_ignored:
  "(\<not> truthy (run_id msg) \<or> pending_key s (run_id msg) = None \<longrightarrow>
      handleWorkerMessage js msg s = s) \<and>
   (stale_v3 s n \<and> run_id msg = JNum n \<and> \<not> is_ready_message msg \<longrightarrow>
      step_v3 p js (run_v3 p js s evs) (WorkerMessage3 w msg) = run_v3 p js s evs) \<and>
   (truthy (m_id msg) \<and> m_id msg \<noteq> JNum k \<longrightarrow> onmessage_v2 k msg t = t) \<and>
   (done_v2 t k \<longrightarrow>
      visible_v2 (onmessage_v2 k msg (run_v2 p t evs2)) = visible_v2 (run_v2 p t evs2) \<and>
      visible_v2 (step_v2 p (run_v2 p t evs2) (WorkerMessage2 k msg)) = visible_v2 (run_v2 p t evs2)) \<and>
   (wf_v3 s \<and> 0 < n \<and> n \<in> set (pending_v3 s) \<and> run_id msg = JNum n \<and>
    (m_type msg = JStr ''result'' \<or> m_type msg = JStr ''error'') \<longrightarrow>
      stale_v3 (handleWorkerMessage js msg s) n) \<and>
   (waiting_v2 t k \<and> m_id msg = JNum k \<and>
    (m_type msg = JStr ''result'' \<or> m_type msg = JStr ''error'') \<longrightarrow>
      done_v2 (onmessage_v2 k msg t) k)"
proof -
  have e: "wf_v3 s \<and> 0 < n \<and> n \<in> set (pending_v3 s) \<and> run_id msg = JNum n \<and>
    (m_type msg = JStr ''result'' \<or> m_type msg = JStr ''error'') \<longrightarrow>
      stale_v3 (handleWorkerMessage js msg s) n"
    using handleWorkerMessage_settles by blast
  have f: "waiting_v2 t k \<and> m_id msg = JNum k \<and>
    (m_type msg = JStr ''result'' \<or> m_type msg = JStr ''error'') \<longrightarrow>
      done_v2 (onmessage_v2 k msg t) k"
    using onmessage_settles by blast
  have a: "\<not> truthy (run_id msg) \<or> pending_key s (run_id msg) = None \<longrightarrow>
      handleWorkerMessage js msg s = s"
    using handleWorkerMessage_falsy handleWorkerMessage_not_pending by blast
  have b: "stale_v3 s n \<and> run_id msg = JNum n \<and> \<not> is_ready_message msg \<longrightarrow>
      step_v3 p js (run_v3 p js s evs) (WorkerMessage3 w msg) = run_v3 p js s evs"
    using stale_message_ignored by blast
  have c: "truthy (m_id msg) \<and> m_id msg \<noteq> JNum k \<longrightarrow> onmessage_v2 k msg t = t"
    using onmessage_other_id by blast
  have d: "done_v2 t k \<longrightarrow>
      visible_v2 (onmessage_v2 k msg (run_v2 p t evs2)) = visible_v2 (run_v2 p t evs2) \<and>
      visible_v2 (step_v2 p (run_v2 p t evs2) (WorkerMessage2 k msg)) = visible_v2 (run_v2 p t evs2)"
  proof
    assume "done_v2 t k"
    then have "done_v2 (run_v2 p t evs2) k" by (rule done_run)
    then have "settled_v2 (run_v2 p t evs2) k" by (simp add: done_v2_def)
    then have "visible_v2 (onmessage_v2 k msg (run_v2 p t evs2)) = visible_v2 (run_v2 p t evs2)"
      by (rule onmessage_settled)
    then show "visible_v2 (onmessage_v2 k msg (run_v2 p t evs2)) = visible_v2 (run_v2 p t evs2) \<and>
      visible_v2 (step_v2 p (run_v2 p t evs2) (WorkerMessage2 k msg)) = visible_v2 (run_v2 p t evs2)"
      by simp
  qed
  show ?thesis by (rule conjI[OF a conjI[OF b conjI[OF c conjI[OF d conjI[OF e f]]]]])
qed

theorem stale_messages_ignored_witness:
  "stale_v3 (run_v3 example_props example_json (initial_v3 example_props)
      [Mount3, WorkerMessage3 1 ready_message, ClickRun3, ClickStop3]) 1 \<and>
   run_id (run_reply_v3 1 (Returned (JStr ''late''))) = JNum 1 \<and>
   \<not> is_ready_message (run_reply_v3 1 (Returned (JStr ''late''))) \<and>
   run_v3 example_props example_json (initial_v3 example_props)
      [Mount3, WorkerMessage3 1 ready_message, ClickRun3, ClickStop3, ClickRun3,
       WorkerMessage3 1 (run_reply_v3 1 (Returned (JStr ''late'')))] =
   run_v3 example_props example_json (initial_v3 example_props)
      [Mount3, WorkerMessage3 1 ready_message, ClickRun3, ClickStop3, ClickRun3] \<and>
   status_v3 (run_v3 example_props example_json (initial_v3 example_props)
      [Mount3, WorkerMessage3 1 ready_message, ClickRun3, ClickStop3, ClickRun3]) = Running \<and>
   onmessage_v2 2 (error_reply 1 (JStr ''late''))
      (run_v2 example_props (initial_v2 example_props) [Mount2, ClickRun2, ClickReset2, ClickRun2]) =
   run_v2 example_props (initial_v2 example_props) [Mount2, ClickRun2, ClickReset2, ClickRun2] \<and>
   done_v2 (run_v2 example_props (initial_v2 example_props) [Mount2, ClickRun2, TimerFired2 1]) 1 \<and>
   visible_v2 (onmessage_v2 1 (error_reply 1 (JStr ''late''))
      (run_v2 example_props (initial_v2 example_props) [Mount2, ClickRun2, TimerFired2 1, ClickRun2])) =
   visible_v2 (run_v2 example_props (initial_v2 example_props)
      [Mount2, ClickRun2, TimerFired2 1, ClickRun2]) \<and>
   pending_v3 (run_v3 example_props example_json (initial_v3 example_props)
      [Mount3, WorkerMessage3 1 ready_message, ClickRun3]) = [1] \<and>
   stale_v3 (handleWorkerMessage example_json (run_reply_v3 1 (Returned (JStr ''late'')))
      (run_v3 example_props example_json (initial_v3 example_props)
         [Mount3, WorkerMessage3 1 ready_message, ClickRun3])) 1 \<and>
   waiting_v2 (run_v2 example_props (initial_v2 example_props) [Mount2, ClickRun2]) 1 \<and>
   done_v2 (onmessage_v2 1 (error_reply 1 (JStr ''late''))
      (run_v2 example_props (initial_v2 example_props) [Mount2, ClickRun2])) 1"
proof -
  let ?s1 = "run_v3 example_props example_json (initial_v3 example_props)
      [Mount3, WorkerMessage3 1 ready_message, ClickRun3]"
  let ?t1 = "run_v2 example_props (initial_v2 example_props) [Mount2, ClickRun2]"
  have g1: "wf_v3 ?s1" "pending_v3 ?s1 = [1]"
    by (simp_all add: common_eval v3_eval wf_v3_def)
  have g2: "m_type (run_reply_v3 1 (Returned (JStr ''late''))) = JStr ''result''"
    by (simp add: run_reply_v3_def empty_message_def js_or_def)
  have g3: "waiting_v2 ?t1 1"
    by (simp add: common_eval v2_eval waiting_v2_def)
  have g4: "m_id (error_reply 1 (JStr ''late'')) = JNum 1"
      "m_type (error_reply 1 (JStr ''late'')) = JStr ''error''"
    by (simp_all add: error_reply_def empty_message_def)
  let ?s = "run_v3 example_props example_json (initial_v3 example_props)
      [Mount3, WorkerMessage3 1 ready_message, ClickRun3, ClickStop3]"
  let ?msg = "run_reply_v3 1 (Returned (JStr ''late''))"
  let ?u = "run_v2 example_props (initial_v2 example_props) [Mount2, ClickRun2, ClickReset2, ClickRun2]"
  let ?t = "run_v2 example_props (initial_v2 example_props) [Mount2, ClickRun2, TimerFired2 1]"
  let ?m2 = "error_reply 1 (JStr ''late'')"
  have h1: "stale_v3 ?s 1" by (simp add: common_eval v3_eval stale_v3_def)
  have h2: "run_id ?msg = JNum 1" "\<not> is_ready_message ?msg"
    by (simp_all add: run_id_def is_ready_message_def run_reply_v3_def empty_message_def js_or_def)
  have h3: "truthy (m_id ?m2)" "m_id ?m2 \<noteq> JNum 2"
    by (simp_all add: error_reply_def empty_message_def)
  have h4: "done_v2 ?t 1"
    by (simp add: common_eval v2_eval done_v2_def settled_v2_def)
  have e: "status_v3 (run_v3 example_props example_json (initial_v3 example_props)
      [Mount3, WorkerMessage3 1 ready_message, ClickRun3, ClickStop3, ClickRun3]) = Running"
    by (simp add: common_eval v3_eval)
  have c1: "step_v3 example_props example_json (run_v3 example_props example_json ?s [ClickRun3])
              (WorkerMessage3 1 ?msg) = run_v3 example_props example_json ?s [ClickRun3]"
    using stale_messages_ignored[where s = ?s and n = 1 and msg = ?msg and p = example_props
        and js = example_json and evs = "[ClickRun3]" and w = 1] h1 h2
    by blast
  have c2: "onmessage_v2 2 ?m2 ?u = ?u"
    using stale_messages_ignored[where msg = ?m2 and k = 2 and t = ?u] h3 by blast
  have c3: "visible_v2 (onmessage_v2 1 ?m2 (run_v2 example_props ?t [ClickRun2])) =
            visible_v2 (run_v2 example_props ?t [ClickRun2])"
    using stale_messages_ignored[where msg = ?m2 and k = 1 and t = ?t and p = example_props
        and ?evs2.0 = "[ClickRun2]"] h4
    by blast
  from c1 have c1': "run_v3 example_props example_json (initial_v3 example_props)
      [Mount3, WorkerMessage3 1 ready_message, ClickRun3, ClickStop3, ClickRun3, WorkerMessage3 1 ?msg] =
   run_v3 example_props example_json (initial_v3 example_props)
      [Mount3, WorkerMessage3 1 ready_message, ClickRun3, ClickStop3, ClickRun3]"
    by (simp only: run_v3_snoc run_v3_run append.simps)
  from c3 have c3': "visible_v2 (onmessage_v2 1 ?m2
      (run_v2 example_props (initial_v2 example_props) [Mount2, ClickRun2, TimerFired2 1, ClickRun2])) =
   visible_v2 (run_v2 example_props (initial_v2 example_props)
      [Mount2, ClickRun2, TimerFired2 1, ClickRun2])"
    by (simp only: run_v2_run append.simps)
  have c4: "stale_v3 (handleWorkerMessage example_json ?msg ?s1) 1"
    using stale_messages_ignored[where s = ?s1 and n = 1 and msg = ?msg and js = example_json]
      g1 g2 h2
    by simp
  have c5: "done_v2 (onmessage_v2 1 ?m2 ?t1) 1"
    using stale_messages_ignored[where t = ?t1 and k = 1 and msg = ?m2] g3 g4 by blast
  show ?thesis using h1 h2 e c1' c2 h4 c3' g1(2) c4 g3 c5 by blast
qed

text \<open>
  Plain text in the first version. The three replacements of \<open>escapeHtml\<close> amount to
  escaping each character on its own: every \<open>&\<close>, \<open><\<close>, \<open>>\<close> once, every other
  character, white space and line breaks included, unchanged. For an output that
  does not look like markup, with no error set, \<open>renderOutput\<close> gives that escaped
  string to the \<open>pre\<close> element as its string child: the reader sees the escaped
  string, and the markup of the page is the escaped string escaped again.
\<close>

theorem plain_text_rendering_v1:
  "escapeHtml s = concat (map escape_char s) \<and>
   (\<not> looksLikeHTML (output_v1 st) \<and> output_v1 st \<noteq> [] \<and> error_v1 st = None \<longrightarrow>
      renderOutput st = RenderPre (concat (map escape_char (output_v1 st))) \<and>
      shown_text (renderOutput st) = Some (concat (map escape_char (output_v1 st))) \<and>
      shown_markup (renderOutput st) =
        Some (text_node_markup (concat (map escape_char (output_v1 st)))))"
  by (simp add: escapeHtml_concat renderOutput_def)

theorem plain_text_rendering_v1_witness:
  "escapeHtml ''a < b && c > d'' = ''a &lt; b &amp;&amp; c &gt; d'' \<and>
   \<not> looksLikeHTML ''a & b'' \<and>
   renderOutput ((initial_v1 example_props)\<lparr>output_v1 := ''a & b''\<rparr>) = RenderPre ''a &amp; b'' \<and>
   shown_text (renderOutput ((initial_v1 example_props)\<lparr>output_v1 := ''a & b''\<rparr>)) =
     Some ''a &amp; b'' \<and>
   shown_markup (renderOutput ((initial_v1 example_props)\<lparr>output_v1 := ''a & b''\<rparr>)) =
     Some ''a &amp;amp; b''"
  using plain_text_rendering_v1[of "''a < b && c > d''"
      "(initial_v1 example_props)\<lparr>output_v1 := ''a & b''\<rparr>"]
  by (simp add: escape_char_def looksLikeHTML_def initial_v1_def is_letter_def)


end
